theory Spec2Isabelle
  imports
    Complex_Main
    "HOL-Library.AList"
    "HOL-Library.Char_ord"
    "HOL-Library.List_Lexorder"
    "HOL-Library.Multiset"
begin

section \<open>Gym management: the data-access layer and the subscription gate\<close>

text \<open>
  A shallow embedding of \<^verbatim>\<open>gym_manager.py\<close> (class \<^verbatim>\<open>GymManager\<close>) and of
  \<^verbatim>\<open>auth_manager.py\<close> (class \<^verbatim>\<open>AuthManager\<close>).

  \<^item> A Python \<^verbatim>\<open>dict\<close> is an association list in insertion order:
    \<^verbatim>\<open>d[k] = v\<close> is \<open>AList.update\<close> (an existing key keeps its place, a new
    key goes to the end), \<^verbatim>\<open>del d[k]\<close> is \<open>AList.delete\<close>, \<^verbatim>\<open>d.get(k)\<close> is
    \<open>map_of\<close>, \<^verbatim>\<open>k in d\<close> is \<open>map_of d k \<noteq> None\<close>. A Python dictionary never
    holds a key twice; where a statement counts entries it assumes
    \<open>distinct (map fst d)\<close>.
  \<^item> A manager object is its in-memory document together with the content of
    its JSON file, so that \<^verbatim>\<open>save_data\<close> is visible.
  \<^item> Money amounts are floats, as the web layer stores them (\<^verbatim>\<open>float(...)\<close> of
    the form field): IEEE 754 doubles with their rounding, infinities and NaN.
  \<^item> The clock is an argument: wherever the source reads \<^verbatim>\<open>datetime.now()\<close>
    the model takes the value read.
\<close>

subsection \<open>Dictionaries\<close>

type_synonym ('k, 'v) dict = "('k \<times> 'v) list"

definition has_key :: "('k, 'v) dict \<Rightarrow> 'k \<Rightarrow> bool" where
  "has_key d k = (map_of d k \<noteq> None)"

definition dict_values :: "('k, 'v) dict \<Rightarrow> 'v list" where
  "dict_values d = map snd d"

text \<open>Python truthiness of an optional string: \<^verbatim>\<open>None\<close> and \<^verbatim>\<open>''\<close> are false.\<close>

fun truthy :: "string option \<Rightarrow> bool" where
  "truthy None = False"
| "truthy (Some s) = (s \<noteq> [])"

subsection \<open>Exceptions\<close>

datatype py_error =
  ValueError | OverflowError | KeyError | AttributeError | TypeError | ZeroDivisionError

subsection \<open>Floating-point numbers\<close>

text \<open>
  A Python \<^verbatim>\<open>float\<close> is an IEEE 754 binary64 number: a finite value (a
  rational \<open>m * 2^e\<close> with \<open>m < 2^53\<close> and \<open>-1074 \<le> e \<le> 971\<close>; \<open>Fin 0\<close> is
  \<open>+0.0\<close>), negative zero, an infinity or a NaN. Every operation gives the
  exact result rounded to the nearest such number, a tie going to the even
  mantissa.
\<close>

datatype double = Fin rat | NegZero | PInf | NInf | NaN

text \<open>The number of binary digits of a positive integer.\<close>

function bit_length :: "int \<Rightarrow> nat" where
  "bit_length n = (if n \<le> 0 then 0 else Suc (bit_length (n div 2)))"
  by pat_completeness auto
termination
  by (relation "measure nat") auto

declare bit_length.simps [simp del]

definition pow2 :: "int \<Rightarrow> rat" where
  "pow2 k = (if 0 \<le> k then 2 ^ nat k else 1 / 2 ^ nat (- k))"

text \<open>For \<open>a > 0\<close>, the integer \<open>e\<close> with \<open>2^e \<le> a < 2^(e+1)\<close>.\<close>

definition ilog2 :: "rat \<Rightarrow> int" where
  "ilog2 a =
     (if 1 \<le> a then int (bit_length \<lfloor>a\<rfloor>) - 1
      else - int (bit_length (\<lceil>1 / a\<rceil> - 1)))"

text \<open>The nearest integer, a tie going to the even one.\<close>

definition round_half_even :: "rat \<Rightarrow> int" where
  "round_half_even x =
     (let f = \<lfloor>x\<rfloor>; r = x - of_int f
      in if r < 1 / 2 then f else if 1 / 2 < r then f + 1 else if even f then f else f + 1)"

text \<open>
  The double nearest to a rational \<open>x \<noteq> 0\<close>: 53 significant bits from the
  binade of \<open>x\<close>, or multiples of \<open>2^-1074\<close> below \<open>2^-1022\<close>; an infinity from
  \<open>2^1024 - 2^970\<close> on; a zero with the sign of \<open>x\<close> on underflow.
\<close>

definition round_double :: "rat \<Rightarrow> double" where
  "round_double x =
     (let a = \<bar>x\<bar>;
          e = max (ilog2 a) (- 1022);
          n = round_half_even (a / pow2 (e - 52))
      in if 1023 < e \<or> (e = 1023 \<and> 2 ^ 53 \<le> n) then (if x < 0 then NInf else PInf)
         else if n = 0 then (if x < 0 then NegZero else Fin 0)
         else Fin ((if x < 0 then - 1 else 1) * of_int n * pow2 (e - 52)))"

fun dval :: "double \<Rightarrow> rat" where
  "dval (Fin r) = r"
| "dval x = 0"

fun is_neg :: "double \<Rightarrow> bool" where
  "is_neg (Fin r) = (r < 0)"
| "is_neg NegZero = True"
| "is_neg NInf = True"
| "is_neg x = False"

definition is_inf :: "double \<Rightarrow> bool" where
  "is_inf x = (x = PInf \<or> x = NInf)"

definition is_zero :: "double \<Rightarrow> bool" where
  "is_zero x = (x = Fin 0 \<or> x = NegZero)"

definition signed_zero :: "bool \<Rightarrow> double" where
  "signed_zero neg = (if neg then NegZero else Fin 0)"

definition signed_inf :: "bool \<Rightarrow> double" where
  "signed_inf neg = (if neg then NInf else PInf)"




definition fmul :: "double \<Rightarrow> double \<Rightarrow> double" where
  "fmul a b =
     (if a = NaN \<or> b = NaN then NaN
      else if is_inf a \<or> is_inf b
           then (if is_zero a \<or> is_zero b then NaN else signed_inf (is_neg a \<noteq> is_neg b))
      else let p = dval a * dval b
           in if p = 0 then signed_zero (is_neg a \<noteq> is_neg b) else round_double p)"

text \<open>The quotient, for a divisor that is not a zero.\<close>

definition fdiv :: "double \<Rightarrow> double \<Rightarrow> double" where
  "fdiv a b =
     (if a = NaN \<or> b = NaN then NaN
      else if is_inf a then (if is_inf b then NaN else signed_inf (is_neg a \<noteq> is_neg b))
      else if is_inf b then signed_zero (is_neg a \<noteq> is_neg b)
      else let q = dval a / dval b
           in if q = 0 then signed_zero (is_neg a \<noteq> is_neg b) else round_double q)"

text \<open>
  \<^verbatim>\<open>round(x, 2)\<close> on a float: the exact value of \<open>x\<close> is rounded to two
  decimals, a tie going to the even digit, and the decimal is converted back
  to the nearest double; the sign is kept, and an infinity or a NaN is
  returned as it is.
\<close>

definition round2 :: "double \<Rightarrow> double" where
  "round2 x =
     (case x of
        Fin r \<Rightarrow>
          (let d = of_int (round_half_even (r * 100)) / 100
           in if d = 0 then signed_zero (r < 0) else round_double d)
      | _ \<Rightarrow> x)"

subsection \<open>Python numbers\<close>










subsection \<open>The gym document\<close>

record member =
  m_id :: string
  m_name :: string
  m_phone :: string
  m_email :: string
  m_photo :: "string option"
  m_joined_date :: string
  m_active :: bool
  m_membership_type :: string
  m_is_trial :: bool
  m_trial_end_date :: "string option"

record fee =
  f_amount :: double
  f_paid_date :: string
  f_notes :: string

record expense =
  e_id :: string
  e_category :: string
  e_amount :: double
  e_date :: "string option"
  e_description :: string

record gym_class =
  c_id :: string
  c_name :: string
  c_day :: string
  c_time :: string
  c_instructor :: string
  c_capacity :: int
  c_attendees :: "string list"

record gym_details =
  g_name :: string
  g_logo :: "string option"
  g_currency :: "string option"

text \<open>
  The keys \<^verbatim>\<open>expenses\<close>, \<^verbatim>\<open>attendance\<close>, \<^verbatim>\<open>classes\<close> and \<^verbatim>\<open>gym_details\<close> can be
  missing from a document written by an older version: they are optional. The
  key \<^verbatim>\<open>admin\<close> is written as \<^verbatim>\<open>None\<close> and never read, and is left out.
\<close>

record gym_data =
  members :: "(string, member) dict"
  fees :: "(string, (string, fee) dict) dict"
  expenses :: "(string, expense) dict option"
  attendance :: "(string, string list) dict option"
  classes :: "(string, gym_class) dict option"
  next_member_id :: int
  details :: "gym_details option"

record gym_manager =
  gm_data :: gym_data
  gm_file :: "gym_data option"

definition create_empty_data :: gym_data where
  "create_empty_data =
     \<lparr>members = [], fees = [], expenses = Some [], attendance = None, classes = None,
      next_member_id = 1,
      details = Some \<lparr>g_name = ''Gym Manager'', g_logo = None, g_currency = Some ''$''\<rparr>\<rparr>"

text \<open>
  \<^verbatim>\<open>load_data\<close>: the file's document, or the empty structure when the file is
  missing or is not JSON (\<open>None\<close>).
\<close>

definition load_data :: "gym_data option \<Rightarrow> gym_data" where
  "load_data f = (case f of Some d \<Rightarrow> d | None \<Rightarrow> create_empty_data)"

definition init_manager :: "gym_data option \<Rightarrow> gym_manager" where
  "init_manager f = \<lparr>gm_data = load_data f, gm_file = f\<rparr>"

definition save_data :: "gym_manager \<Rightarrow> gym_manager" where
  "save_data g = g\<lparr>gm_file := Some (gm_data g)\<rparr>"

subsection \<open>Decimal numerals and dates of the standard library\<close>

definition digit_char :: "nat \<Rightarrow> char" where
  "digit_char n = ''0123456789'' ! n"

text \<open>\<^verbatim>\<open>str(n)\<close> for an integer.\<close>

function str_nat :: "nat \<Rightarrow> string" where
  "str_nat n = (if n < 10 then [digit_char n] else str_nat (n div 10) @ [digit_char (n mod 10)])"
  by pat_completeness auto
termination
  by (relation "measure id") auto

declare str_nat.simps [simp del]

definition str_int :: "int \<Rightarrow> string" where
  "str_int i = (if i < 0 then CHR ''-'' # str_nat (nat (- i)) else str_nat (nat i))"

text \<open>The format \<^verbatim>\<open>{n:0wd}\<close> for \<open>n \<ge> 0\<close>: zeros on the left up to width \<open>w\<close>.\<close>

definition zero_pad :: "nat \<Rightarrow> nat \<Rightarrow> string" where
  "zero_pad w n = replicate (w - length (str_nat n)) (CHR ''0'') @ str_nat n"

definition digit_val :: "char \<Rightarrow> nat option" where
  "digit_val c =
     map_of [(CHR ''0'', 0), (CHR ''1'', 1), (CHR ''2'', 2), (CHR ''3'', 3), (CHR ''4'', 4),
             (CHR ''5'', 5), (CHR ''6'', 6), (CHR ''7'', 7), (CHR ''8'', 8), (CHR ''9'', 9)] c"

definition digits_val :: "string \<Rightarrow> nat option" where
  "digits_val cs =
     (if cs \<noteq> [] \<and> list_all (\<lambda>c. digit_val c \<noteq> None) cs
      then Some (foldl (\<lambda>a c. 10 * a + (case digit_val c of Some v \<Rightarrow> v | None \<Rightarrow> 0)) 0 cs)
      else None)"

record datetime =
  dt_year :: nat
  dt_month :: nat
  dt_day :: nat
  dt_hour :: nat
  dt_minute :: nat
  dt_second :: nat
  dt_microsecond :: nat

fun lex_le :: "nat list \<Rightarrow> nat list \<Rightarrow> bool" where
  "lex_le [] ys = True"
| "lex_le (x # xs) [] = False"
| "lex_le (x # xs) (y # ys) = (x < y \<or> (x = y \<and> lex_le xs ys))"

text \<open>\<^verbatim>\<open>a <= b\<close> on naive \<^verbatim>\<open>datetime\<close> values.\<close>

definition datetime_le :: "datetime \<Rightarrow> datetime \<Rightarrow> bool" where
  "datetime_le a b =
     lex_le [dt_year a, dt_month a, dt_day a, dt_hour a, dt_minute a, dt_second a, dt_microsecond a]
            [dt_year b, dt_month b, dt_day b, dt_hour b, dt_minute b, dt_second b, dt_microsecond b]"

definition is_leap :: "nat \<Rightarrow> bool" where
  "is_leap y = (y mod 4 = 0 \<and> (y mod 100 \<noteq> 0 \<or> y mod 400 = 0))"

definition days_in_month :: "nat \<Rightarrow> nat \<Rightarrow> nat" where
  "days_in_month y m =
     (if m = 2 then (if is_leap y then 29 else 28)
      else if m = 4 \<or> m = 6 \<or> m = 9 \<or> m = 11 then 30 else 31)"

text \<open>
  \<^verbatim>\<open>datetime.strptime(s, '%Y-%m-%d')\<close>. The library matches the pattern
  \<^verbatim>\<open>(\d\d\d\d)-(1[0-2]|0[1-9]|[1-9])-(3[01]|[12]\d|0[1-9]|[1-9]| [1-9])\<close> against
  the whole string and then builds the date, raising \<^verbatim>\<open>ValueError\<close> (\<open>None\<close>)
  when the string does not match, the year is 0 or the day does not exist in
  the month. The time of day of the result is midnight. Digits are the ASCII
  digits.
\<close>

definition month_field :: "string \<Rightarrow> nat option" where
  "month_field s =
     (case digits_val s of
        None \<Rightarrow> None
      | Some v \<Rightarrow> if length s \<le> 2 \<and> 1 \<le> v \<and> v \<le> 12 then Some v else None)"

definition day_field :: "string \<Rightarrow> nat option" where
  "day_field s =
     (let t = (if length s = 2 \<and> hd s = CHR '' '' \<and> s ! 1 \<noteq> CHR ''0'' then tl s else s)
      in case digits_val t of
           None \<Rightarrow> None
         | Some v \<Rightarrow> if length t \<le> 2 \<and> 1 \<le> v \<and> v \<le> 31 then Some v else None)"

definition strptime_ymd :: "string \<Rightarrow> datetime option" where
  "strptime_ymd s =
     (let rest = drop 5 s;
          mstr = takeWhile (\<lambda>c. c \<noteq> CHR ''-'') rest;
          after = dropWhile (\<lambda>c. c \<noteq> CHR ''-'') rest
      in if length s < 5 \<or> s ! 4 \<noteq> CHR ''-'' \<or> after = [] then None
         else case (digits_val (take 4 s), month_field mstr, day_field (tl after)) of
                (Some y, Some m, Some d) \<Rightarrow>
                  if 1 \<le> y \<and> d \<le> days_in_month y m
                  then Some \<lparr>dt_year = y, dt_month = m, dt_day = d, dt_hour = 0,
                             dt_minute = 0, dt_second = 0, dt_microsecond = 0\<rparr>
                  else None
              | _ \<Rightarrow> None)"

text \<open>
  \<^verbatim>\<open>dt + timedelta(days=n)\<close>, one day at a time; \<^verbatim>\<open>OverflowError\<close> (\<open>None\<close>)
  past the year 9999.
\<close>

definition next_day :: "datetime \<Rightarrow> datetime" where
  "next_day t =
     (if dt_day t < days_in_month (dt_year t) (dt_month t) then t\<lparr>dt_day := dt_day t + 1\<rparr>
      else if dt_month t < 12 then t\<lparr>dt_month := dt_month t + 1, dt_day := 1\<rparr>
      else t\<lparr>dt_year := dt_year t + 1, dt_month := 1, dt_day := 1\<rparr>)"

definition plus_days :: "nat \<Rightarrow> datetime \<Rightarrow> datetime option" where
  "plus_days n t = (let r = (next_day ^^ n) t in if dt_year r > 9999 then None else Some r)"

text \<open>\<^verbatim>\<open>strftime('%Y-%m-%d')\<close>, the year written with four digits.\<close>

definition strftime_ymd :: "datetime \<Rightarrow> string" where
  "strftime_ymd t =
     zero_pad 4 (dt_year t) @ ''-'' @ zero_pad 2 (dt_month t) @ ''-'' @ zero_pad 2 (dt_day t)"

subsection \<open>Members\<close>

text \<open>
  \<^verbatim>\<open>add_member\<close>; \<open>today\<close> is \<^verbatim>\<open>datetime.now().strftime('%Y-%m-%d')\<close>. The trial
  end is computed before anything is stored, so an exception leaves the
  manager as it was. The value returned, \<^verbatim>\<open>int(member_id)\<close>, is the counter.
\<close>

definition add_member ::
  "string \<Rightarrow> string \<Rightarrow> string option \<Rightarrow> string \<Rightarrow> string option \<Rightarrow> bool \<Rightarrow> string option
     \<Rightarrow> string \<Rightarrow> gym_manager \<Rightarrow> py_error + (int \<times> gym_manager)" where
  "add_member name phone photo membership_type joined_date is_trial email today g =
     (let d = gm_data g;
          member_id = str_int (next_member_id d);
          joined = (case joined_date of None \<Rightarrow> today
                    | Some j \<Rightarrow> if j = [] then today else j);
          trial_end =
            (if is_trial then
               (case strptime_ymd joined of
                  None \<Rightarrow> Inl ValueError
                | Some t \<Rightarrow> (case plus_days 3 t of
                               None \<Rightarrow> Inl OverflowError
                             | Some t' \<Rightarrow> Inr (Some (strftime_ymd t'))))
             else Inr None)
      in case trial_end of
           Inl err \<Rightarrow> Inl err
         | Inr te \<Rightarrow>
             let m = \<lparr>m_id = member_id, m_name = name, m_phone = phone,
                      m_email = (case email of None \<Rightarrow> [] | Some e \<Rightarrow> e),
                      m_photo = photo, m_joined_date = joined, m_active = True,
                      m_membership_type = membership_type, m_is_trial = is_trial,
                      m_trial_end_date = te\<rparr>
             in Inr (next_member_id d,
                     save_data (g\<lparr>gm_data := d\<lparr>members := AList.update member_id m (members d),
                                                next_member_id := next_member_id d + 1\<rparr>\<rparr>)))"

definition update_member ::
  "string \<Rightarrow> string \<Rightarrow> string \<Rightarrow> string \<Rightarrow> string option \<Rightarrow> string option \<Rightarrow> gym_manager
     \<Rightarrow> bool \<times> gym_manager" where
  "update_member member_id name phone membership_type joined_date email g =
     (let d = gm_data g in
      case map_of (members d) member_id of
        None \<Rightarrow> (False, g)
      | Some m \<Rightarrow>
          let m1 = m\<lparr>m_name := name, m_phone := phone, m_membership_type := membership_type\<rparr>;
              m2 = (case email of None \<Rightarrow> m1 | Some e \<Rightarrow> m1\<lparr>m_email := e\<rparr>);
              m3 = (case joined_date of None \<Rightarrow> m2
                    | Some j \<Rightarrow> if j = [] then m2 else m2\<lparr>m_joined_date := j\<rparr>)
          in (True, save_data (g\<lparr>gm_data := d\<lparr>members := AList.update member_id m3 (members d)\<rparr>\<rparr>)))"

definition delete_member :: "string \<Rightarrow> gym_manager \<Rightarrow> bool \<times> gym_manager" where
  "delete_member member_id g =
     (let d = gm_data g in
      if \<not> has_key (members d) member_id then (False, g)
      else
        let members' = AList.delete member_id (members d);
            fees' = (if has_key (fees d) member_id then AList.delete member_id (fees d)
                     else fees d)
        in (True, save_data (g\<lparr>gm_data := d\<lparr>members := members', fees := fees'\<rparr>\<rparr>)))"

definition get_all_members :: "gym_manager \<Rightarrow> member list" where
  "get_all_members g = dict_values (members (gm_data g))"

definition get_member :: "string \<Rightarrow> gym_manager \<Rightarrow> member option" where
  "get_member member_id g = map_of (members (gm_data g)) member_id"

subsection \<open>Fees\<close>

definition pay_fee ::
  "string \<Rightarrow> string \<Rightarrow> double \<Rightarrow> string option \<Rightarrow> string option \<Rightarrow> string \<Rightarrow> gym_manager
     \<Rightarrow> bool \<times> gym_manager" where
  "pay_fee member_id month amount paid_date notes now g =
     (let d = gm_data g in
      if \<not> has_key (members d) member_id then (False, g)
      else
        let fees1 = (if \<not> has_key (fees d) member_id
                     then AList.update member_id [] (fees d) else fees d);
            paid_date' = (case paid_date of None \<Rightarrow> now
                          | Some p \<Rightarrow> if p = [] then now else p);
            record' = \<lparr>f_amount = amount, f_paid_date = paid_date',
                       f_notes = (case notes of None \<Rightarrow> [] | Some n \<Rightarrow> n)\<rparr>;
            inner = (case map_of fees1 member_id of None \<Rightarrow> [] | Some i \<Rightarrow> i);
            fees2 = AList.update member_id (AList.update month record' inner) fees1
        in (True, save_data (g\<lparr>gm_data := d\<lparr>fees := fees2\<rparr>\<rparr>)))"

definition delete_fee :: "string \<Rightarrow> string \<Rightarrow> gym_manager \<Rightarrow> bool \<times> gym_manager" where
  "delete_fee member_id month g =
     (let d = gm_data g in
      case map_of (fees d) member_id of
        None \<Rightarrow> (False, g)
      | Some inner \<Rightarrow>
          if \<not> has_key inner month then (False, g)
          else (True, save_data (g\<lparr>gm_data :=
                  d\<lparr>fees := AList.update member_id (AList.delete month inner) (fees d)\<rparr>\<rparr>)))"

definition update_fee ::
  "string \<Rightarrow> string \<Rightarrow> double \<Rightarrow> string \<Rightarrow> string option \<Rightarrow> gym_manager \<Rightarrow> bool \<times> gym_manager" where
  "update_fee member_id month amount date notes g =
     (let d = gm_data g in
      case map_of (fees d) member_id of
        None \<Rightarrow> (False, g)
      | Some inner \<Rightarrow>
          (case map_of inner month of
             None \<Rightarrow> (False, g)
           | Some r \<Rightarrow>
               let r1 = r\<lparr>f_amount := amount, f_paid_date := date\<rparr>;
                   r2 = (case notes of None \<Rightarrow> r1 | Some n \<Rightarrow> r1\<lparr>f_notes := n\<rparr>)
               in (True, save_data (g\<lparr>gm_data :=
                     d\<lparr>fees := AList.update member_id (AList.update month r2 inner) (fees d)\<rparr>\<rparr>))))"

definition is_fee_paid :: "string \<Rightarrow> string \<Rightarrow> gym_manager \<Rightarrow> bool" where
  "is_fee_paid member_id month g =
     (case map_of (fees (gm_data g)) member_id of
        None \<Rightarrow> False
      | Some inner \<Rightarrow> has_key inner month)"

definition fee_info :: "string \<Rightarrow> string \<Rightarrow> gym_manager \<Rightarrow> fee option" where
  "fee_info member_id month g =
     (case map_of (fees (gm_data g)) member_id of
        None \<Rightarrow> None
      | Some inner \<Rightarrow> map_of inner month)"

record paid_entry =
  pe_member :: member
  pe_last_paid :: string
  pe_amount :: double

text \<open>
  The loop of \<^verbatim>\<open>get_payment_status\<close> over \<^verbatim>\<open>members.items()\<close>. A paid entry is
  the copy of the member with the keys \<^verbatim>\<open>last_paid\<close> and \<^verbatim>\<open>amount\<close> added. The
  lookup \<^verbatim>\<open>fees[member_id][month]\<close> comes after \<^verbatim>\<open>is_fee_paid\<close> has answered
  true, so its \<open>None\<close> branch (a \<^verbatim>\<open>KeyError\<close>) is never taken.
\<close>

fun payment_loop ::
  "gym_manager \<Rightarrow> string \<Rightarrow> (string \<times> member) list \<Rightarrow> paid_entry list \<Rightarrow> member list
     \<Rightarrow> paid_entry list \<times> member list" where
  "payment_loop g month [] paid unpaid = (paid, unpaid)"
| "payment_loop g month ((member_id, m) # rest) paid unpaid =
     (if is_fee_paid member_id month g then
        (case fee_info member_id month g of
           Some fi \<Rightarrow>
             payment_loop g month rest
               (paid @ [\<lparr>pe_member = m, pe_last_paid = f_paid_date fi, pe_amount = f_amount fi\<rparr>])
               unpaid
         | None \<Rightarrow> payment_loop g month rest paid unpaid)
      else payment_loop g month rest paid (unpaid @ [m]))"

text \<open>\<open>this_month\<close> is \<^verbatim>\<open>datetime.now().strftime('%Y-%m')\<close>.\<close>

definition get_payment_status ::
  "string option \<Rightarrow> string \<Rightarrow> gym_manager \<Rightarrow> paid_entry list \<times> member list" where
  "get_payment_status month this_month g =
     payment_loop g (case month of None \<Rightarrow> this_month | Some m \<Rightarrow> m)
       (members (gm_data g)) [] []"

record fee_history_entry =
  h_month :: string
  h_amount :: double
  h_paid_date :: string
  h_notes :: string

text \<open>
  \<^verbatim>\<open>sorted(xs, key=f, reverse=True)\<close>: a stable sort in descending order, equal
  keys staying in their original order.
\<close>

definition sorted_reverse :: "('a \<Rightarrow> 'k::linorder) \<Rightarrow> 'a list \<Rightarrow> 'a list" where
  "sorted_reverse f xs = rev (sort_key f (rev xs))"

definition get_member_fee_history :: "string \<Rightarrow> gym_manager \<Rightarrow> fee_history_entry list" where
  "get_member_fee_history member_id g =
     (case map_of (fees (gm_data g)) member_id of
        None \<Rightarrow> []
      | Some inner \<Rightarrow>
          sorted_reverse h_month
            (map (\<lambda>(month, info). \<lparr>h_month = month, h_amount = f_amount info,
                                    h_paid_date = f_paid_date info, h_notes = f_notes info\<rparr>)
                 inner))"

subsection \<open>Expenses and profit and loss\<close>

definition add_expense ::
  "string \<Rightarrow> double \<Rightarrow> string option \<Rightarrow> string \<Rightarrow> gym_manager \<Rightarrow> bool \<times> gym_manager" where
  "add_expense category amount date description g =
     (let d = gm_data g;
          exps = (case expenses d of None \<Rightarrow> [] | Some e \<Rightarrow> e);
          expense_id = ''EXP'' @ zero_pad 4 (length exps + 1);
          e = \<lparr>e_id = expense_id, e_category = category, e_amount = amount, e_date = date,
               e_description = description\<rparr>
      in (True, save_data (g\<lparr>gm_data := d\<lparr>expenses := Some (AList.update expense_id e exps)\<rparr>\<rparr>)))"






definition delete_expense :: "string \<Rightarrow> gym_manager \<Rightarrow> bool \<times> gym_manager" where
  "delete_expense expense_id g =
     (let d = gm_data g in
      case expenses d of
        None \<Rightarrow> (False, g)
      | Some exps \<Rightarrow>
          if \<not> has_key exps expense_id then (False, g)
          else (True, save_data (g\<lparr>gm_data := d\<lparr>expenses := Some (AList.delete expense_id exps)\<rparr>\<rparr>)))"



subsection \<open>Attendance\<close>

text \<open>\<open>timestamp\<close> is \<^verbatim>\<open>datetime.now().strftime('%Y-%m-%d %H:%M:%S')\<close>.\<close>

definition log_attendance :: "string \<Rightarrow> string \<Rightarrow> gym_manager \<Rightarrow> bool \<times> gym_manager" where
  "log_attendance member_id timestamp g =
     (let d = gm_data g in
      if \<not> has_key (members d) member_id then (False, g)
      else
        let att = (case attendance d of None \<Rightarrow> [] | Some a \<Rightarrow> a);
            att1 = (if \<not> has_key att member_id then AList.update member_id [] att else att);
            visits = (case map_of att1 member_id of None \<Rightarrow> [] | Some v \<Rightarrow> v)
        in (True, save_data (g\<lparr>gm_data :=
              d\<lparr>attendance := Some (AList.update member_id (visits @ [timestamp]) att1)\<rparr>\<rparr>)))"

definition get_attendance :: "string \<Rightarrow> gym_manager \<Rightarrow> string list" where
  "get_attendance member_id g =
     (case attendance (gm_data g) of
        None \<Rightarrow> []
      | Some att \<Rightarrow> rev (case map_of att member_id of None \<Rightarrow> [] | Some v \<Rightarrow> v))"

subsection \<open>Classes\<close>

definition add_class ::
  "string \<Rightarrow> string \<Rightarrow> string \<Rightarrow> string \<Rightarrow> int \<Rightarrow> gym_manager \<Rightarrow> string \<times> gym_manager" where
  "add_class name day time instructor capacity g =
     (let d = gm_data g;
          cs = (case classes d of None \<Rightarrow> [] | Some c \<Rightarrow> c);
          class_id = str_nat (length cs + 1);
          c = \<lparr>c_id = class_id, c_name = name, c_day = day, c_time = time,
               c_instructor = instructor, c_capacity = capacity, c_attendees = []\<rparr>
      in (class_id, save_data (g\<lparr>gm_data := d\<lparr>classes := Some (AList.update class_id c cs)\<rparr>\<rparr>)))"

definition book_class :: "string \<Rightarrow> string \<Rightarrow> gym_manager \<Rightarrow> bool \<times> gym_manager" where
  "book_class member_id class_id g =
     (let d = gm_data g in
      case classes d of
        None \<Rightarrow> (False, g)
      | Some cs \<Rightarrow>
          (case map_of cs class_id of
             None \<Rightarrow> (False, g)
           | Some cls \<Rightarrow>
               if member_id \<in> set (c_attendees cls) then (True, g)
               else if int (length (c_attendees cls)) \<ge> c_capacity cls then (False, g)
               else (True, save_data (g\<lparr>gm_data := d\<lparr>classes := Some
                       (AList.update class_id (cls\<lparr>c_attendees := c_attendees cls @ [member_id]\<rparr>)
                          cs)\<rparr>\<rparr>))))"

definition get_classes :: "gym_manager \<Rightarrow> gym_class list" where
  "get_classes g = (case classes (gm_data g) of None \<Rightarrow> [] | Some cs \<Rightarrow> dict_values cs)"

subsection \<open>Gym profile and reset\<close>

definition get_gym_details :: "gym_manager \<Rightarrow> gym_details \<times> gym_manager" where
  "get_gym_details g =
     (let g1 = (case details (gm_data g) of
                  None \<Rightarrow> save_data (g\<lparr>gm_data := (gm_data g)\<lparr>details :=
                            Some \<lparr>g_name = ''Gym Manager'', g_logo = None,
                                  g_currency = Some ''$''\<rparr>\<rparr>\<rparr>)
                | Some _ \<Rightarrow> g);
          gd = (case details (gm_data g1) of
                  Some x \<Rightarrow> x
                | None \<Rightarrow> \<lparr>g_name = ''Gym Manager'', g_logo = None, g_currency = Some ''$''\<rparr>)
      in if g_currency gd = None
         then (let gd' = gd\<lparr>g_currency := Some ''$''\<rparr>
               in (gd', save_data (g1\<lparr>gm_data := (gm_data g1)\<lparr>details := Some gd'\<rparr>\<rparr>)))
         else (gd, g1))"

definition update_gym_details ::
  "string \<Rightarrow> string option \<Rightarrow> string \<Rightarrow> gym_manager \<Rightarrow> bool \<times> gym_manager" where
  "update_gym_details name logo_path currency g =
     (let d = gm_data g;
          old_logo = (case details d of None \<Rightarrow> None | Some gd \<Rightarrow> g_logo gd);
          gd' = \<lparr>g_name = name, g_logo = (if truthy logo_path then logo_path else old_logo),
                 g_currency = Some currency\<rparr>
      in (True, save_data (g\<lparr>gm_data := d\<lparr>details := Some gd'\<rparr>\<rparr>)))"

definition reset_data :: "gym_manager \<Rightarrow> bool \<times> gym_manager" where
  "reset_data g = (True, save_data (g\<lparr>gm_data := create_empty_data\<rparr>))"

subsection \<open>Sequences of calls\<close>

text \<open>
  One constructor per public method that can change the manager, with the
  method's arguments (and the clock value it reads), and \<open>Reload\<close> for a new
  \<^verbatim>\<open>GymManager\<close> object built on the same file, as the web layer does on every
  request.
\<close>

datatype call =
    AddMember string string "string option" string "string option" bool "string option" string
  | UpdateMember string string string string "string option" "string option"
  | DeleteMember string
  | AddExpense string double "string option" string
  | DeleteExpense string
  | PayFee string string double "string option" "string option" string
  | DeleteFee string string
  | UpdateFee string string double string "string option"
  | LogAttendance string string
  | AddClass string string string string int
  | BookClass string string
  | GetGymDetails
  | UpdateGymDetails string "string option" string
  | ResetData
  | Reload

fun apply_call :: "call \<Rightarrow> gym_manager \<Rightarrow> gym_manager" where
  "apply_call (AddMember n p ph mt jd tr em today) g =
     (case add_member n p ph mt jd tr em today g of Inl _ \<Rightarrow> g | Inr (_, g') \<Rightarrow> g')"
| "apply_call (UpdateMember i n p mt jd em) g = snd (update_member i n p mt jd em g)"
| "apply_call (DeleteMember i) g = snd (delete_member i g)"
| "apply_call (AddExpense c a dt ds) g = snd (add_expense c a dt ds g)"
| "apply_call (DeleteExpense i) g = snd (delete_expense i g)"
| "apply_call (PayFee i m a pd n now) g = snd (pay_fee i m a pd n now g)"
| "apply_call (DeleteFee i m) g = snd (delete_fee i m g)"
| "apply_call (UpdateFee i m a dt n) g = snd (update_fee i m a dt n g)"
| "apply_call (LogAttendance i ts) g = snd (log_attendance i ts g)"
| "apply_call (AddClass n dy tm ins cap) g = snd (add_class n dy tm ins cap g)"
| "apply_call (BookClass i c) g = snd (book_class i c g)"
| "apply_call GetGymDetails g = snd (get_gym_details g)"
| "apply_call (UpdateGymDetails n l c) g = snd (update_gym_details n l c g)"
| "apply_call ResetData g = snd (reset_data g)"
| "apply_call Reload g = init_manager (gm_file g)"

definition run :: "call list \<Rightarrow> gym_manager \<Rightarrow> gym_manager" where
  "run cs g = foldl (\<lambda>s c. apply_call c s) g cs"

subsection \<open>The subscription gate\<close>

record payment =
  p_date :: string
  p_amount :: double
  p_method :: string
  p_status :: string

record user =
  u_password :: string
  u_joined_at :: string
  u_referral_code :: "string option"
  u_plan :: "string option"
  u_subscription_expiry :: "string option"
  u_subscription_status :: "string option"
  u_payment_proof :: "string option"
  u_payments :: "payment list option"

text \<open>
  \<^verbatim>\<open>is_subscription_active\<close>; \<open>now\<close> is \<^verbatim>\<open>datetime.now()\<close>. \<^verbatim>\<open>strptime\<close> raises
  \<^verbatim>\<open>ValueError\<close> on a stored expiry that is not a date.
\<close>

definition is_subscription_active ::
  "string \<Rightarrow> datetime \<Rightarrow> (string, user) dict \<Rightarrow> py_error + bool" where
  "is_subscription_active username now users =
     (case map_of users username of
        None \<Rightarrow> Inr False
      | Some u \<Rightarrow>
          if u_plan u = Some ''free_lifetime'' then Inr True
          else
            (case u_subscription_expiry u of
               None \<Rightarrow> Inr False
             | Some expiry_str \<Rightarrow>
                 if expiry_str = [] then Inr False
                 else (case strptime_ymd expiry_str of
                         None \<Rightarrow> Inl ValueError
                       | Some expiry_date \<Rightarrow> Inr (datetime_le now expiry_date))))"

text \<open>\<^verbatim>\<open>strftime('%Y-%m-%d %H:%M:%S')\<close>.\<close>

definition strftime_full :: "datetime \<Rightarrow> string" where
  "strftime_full t =
     strftime_ymd t @ '' '' @ zero_pad 2 (dt_hour t) @ '':'' @ zero_pad 2 (dt_minute t) @ '':'' @
     zero_pad 2 (dt_second t)"

definition record_payment ::
  "string \<Rightarrow> double \<Rightarrow> string \<Rightarrow> datetime \<Rightarrow> (string, user) dict \<Rightarrow> (string, user) dict" where
  "record_payment username amount method now users =
     (case map_of users username of
        None \<Rightarrow> users
      | Some u \<Rightarrow>
          let old = (case u_payments u of None \<Rightarrow> [] | Some ps \<Rightarrow> ps);
              p = \<lparr>p_date = strftime_full now, p_amount = amount, p_method = method,
                   p_status = ''Completed''\<rparr>
          in AList.update username (u\<lparr>u_payments := Some (old @ [p])\<rparr>) users)"

text \<open>
  \<^verbatim>\<open>renew_subscription\<close> and \<^verbatim>\<open>approve_manual_payment\<close>; the result is the users
  dictionary that \<^verbatim>\<open>save_users\<close> writes. \<open>now\<close> stands for both readings of
  the clock in one call. \<^verbatim>\<open>OverflowError\<close> when the new date is past the
  year 9999.
\<close>

definition renew_subscription ::
  "string \<Rightarrow> nat \<Rightarrow> datetime \<Rightarrow> (string, user) dict \<Rightarrow> py_error + (bool \<times> (string, user) dict)" where
  "renew_subscription username days now users =
     (case map_of users username of
        None \<Rightarrow> Inr (False, users)
      | Some u \<Rightarrow>
          (case plus_days days now of
             None \<Rightarrow> Inl OverflowError
           | Some t \<Rightarrow>
               let users1 = AList.update username
                              (u\<lparr>u_subscription_expiry := Some (strftime_ymd t)\<rparr>) users
               in Inr (True, record_payment username (Fin 60) ''Credit Card'' now users1)))"

definition approve_manual_payment ::
  "string \<Rightarrow> datetime \<Rightarrow> (string, user) dict \<Rightarrow> py_error + (bool \<times> (string, user) dict)" where
  "approve_manual_payment username now users =
     (case map_of users username of
        None \<Rightarrow> Inr (False, users)
      | Some u \<Rightarrow>
          (case plus_days 30 now of
             None \<Rightarrow> Inl OverflowError
           | Some t \<Rightarrow>
               let users1 = AList.update username
                              (u\<lparr>u_subscription_status := Some ''active'',
                                 u_subscription_expiry := Some (strftime_ymd t)\<rparr>) users
               in Inr (True, record_payment username (Fin 2000) ''Manual/JazzCash'' now users1)))"

subsection \<open>Well-formed documents\<close>

text \<open>
  A Python dictionary holds each key once. \<open>wf_data\<close> says so for every
  dictionary of the document; every method keeps it (\<open>wf_manager_run\<close> below).
\<close>

definition distinct_keys :: "('k, 'v) dict \<Rightarrow> bool" where
  "distinct_keys d = distinct (map fst d)"

definition opt_keys_ok :: "('k, 'v) dict option \<Rightarrow> bool" where
  "opt_keys_ok od = (case od of None \<Rightarrow> True | Some d \<Rightarrow> distinct_keys d)"

definition wf_data :: "gym_data \<Rightarrow> bool" where
  "wf_data d =
     (distinct_keys (members d) \<and> distinct_keys (fees d) \<and>
      list_all (\<lambda>(k, inner). distinct_keys inner) (fees d) \<and>
      opt_keys_ok (expenses d) \<and> opt_keys_ok (attendance d) \<and> opt_keys_ok (classes d))"

definition wf_manager :: "gym_manager \<Rightarrow> bool" where
  "wf_manager g =
     (wf_data (gm_data g) \<and> (case gm_file g of None \<Rightarrow> True | Some d \<Rightarrow> wf_data d))"

text \<open>
  Every member record carries its own key as \<^verbatim>\<open>id\<close>, as \<^verbatim>\<open>add_member\<close> writes it;
  every method keeps this (\<open>ids_inv_run\<close> below).
\<close>

definition member_ids_ok :: "gym_data \<Rightarrow> bool" where
  "member_ids_ok d = list_all (\<lambda>(k, m). m_id m = k) (members d)"

definition ids_inv :: "gym_manager \<Rightarrow> bool" where
  "ids_inv g =
     (member_ids_ok (gm_data g) \<and>
      (case gm_file g of None \<Rightarrow> True | Some d \<Rightarrow> member_ids_ok d))"

subsection \<open>Capacity of classes\<close>

text \<open>
  The number of attendees of a class is at most its capacity, or zero when the
  capacity is negative; for every class of the document in memory and of the
  document in the file.
\<close>

definition within_capacity :: "gym_class \<Rightarrow> bool" where
  "within_capacity c = (int (length (c_attendees c)) \<le> max 0 (c_capacity c))"

definition capacity_ok :: "gym_data \<Rightarrow> bool" where
  "capacity_ok d =
     (case classes d of None \<Rightarrow> True | Some cs \<Rightarrow> list_all (\<lambda>(k, c). within_capacity c) cs)"

definition capacity_inv :: "gym_manager \<Rightarrow> bool" where
  "capacity_inv g =
     (capacity_ok (gm_data g) \<and> (case gm_file g of None \<Rightarrow> True | Some d \<Rightarrow> capacity_ok d))"

subsection \<open>Views of a document used in the statements\<close>

text \<open>The entries of a member's fee history that are for one month.\<close>

definition month_records :: "string \<Rightarrow> string \<Rightarrow> gym_manager \<Rightarrow> fee_history_entry list" where
  "month_records member_id month g =
     filter (\<lambda>e. h_month e = month) (get_member_fee_history member_id g)"

text \<open>The expenses dictionary, empty when the key is missing.\<close>

definition stored_expenses :: "gym_manager \<Rightarrow> (string, expense) dict" where
  "stored_expenses g = (case expenses (gm_data g) of None \<Rightarrow> [] | Some e \<Rightarrow> e)"

text \<open>
  The paid entry of one item of \<^verbatim>\<open>members\<close>, when the member has a fee record
  for the month.
\<close>

definition paid_entry_of :: "gym_manager \<Rightarrow> string \<Rightarrow> string \<times> member \<Rightarrow> paid_entry option" where
  "paid_entry_of g month km =
     map_option (\<lambda>f. \<lparr>pe_member = snd km, pe_last_paid = f_paid_date f, pe_amount = f_amount f\<rparr>)
       (fee_info (fst km) month g)"



subsection \<open>Example documents\<close>

text \<open>
  The manager after Alice has registered on a fresh file, and after she has
  paid January (\<open>examples_reached\<close> below).
\<close>

definition alice :: member where
  "alice = \<lparr>m_id = ''1'', m_name = ''Alice'', m_phone = ''555-0100'', m_email = [],
     m_photo = None, m_joined_date = ''2024-01-10'', m_active = True,
     m_membership_type = ''Gym'', m_is_trial = False, m_trial_end_date = None\<rparr>"

definition doc_alice :: gym_data where
  "doc_alice = create_empty_data\<lparr>members := [(''1'', alice)], next_member_id := 2\<rparr>"

definition gym_alice :: gym_manager where
  "gym_alice = \<lparr>gm_data = doc_alice, gm_file = Some doc_alice\<rparr>"

definition doc_alice_paid :: gym_data where
  "doc_alice_paid =
     doc_alice\<lparr>fees := [(''1'', [(''2024-01'',
       \<lparr>f_amount = Fin 50, f_paid_date = ''2024-01-15 10:00:00'', f_notes = []\<rparr>)])]\<rparr>"

definition gym_alice_paid :: gym_manager where
  "gym_alice_paid = \<lparr>gm_data = doc_alice_paid, gm_file = Some doc_alice_paid\<rparr>"

text \<open>
  Later, Alice has checked in once and holds the only place of a yoga class.
\<close>

definition yoga :: gym_class where
  "yoga = \<lparr>c_id = ''1'', c_name = ''Yoga'', c_day = ''Monday'', c_time = ''17:00'',
     c_instructor = ''Eve'', c_capacity = 1, c_attendees = [''1'']\<rparr>"

definition doc_busy :: gym_data where
  "doc_busy =
     doc_alice_paid\<lparr>attendance := Some [(''1'', [''2024-01-16 07:30:00''])],
                     classes := Some [(''1'', yoga)]\<rparr>"

definition gym_busy :: gym_manager where
  "gym_busy = \<lparr>gm_data = doc_busy, gm_file = Some doc_busy\<rparr>"

text \<open>A fresh manager on which one class was created with capacity \<open>-1\<close>.\<close>

definition spin :: gym_class where
  "spin = \<lparr>c_id = ''1'', c_name = ''Spin'', c_day = ''Tuesday'', c_time = ''18:00'',
     c_instructor = ''Eve'', c_capacity = - 1, c_attendees = []\<rparr>"

definition doc_spin :: gym_data where
  "doc_spin = create_empty_data\<lparr>classes := Some [(''1'', spin)]\<rparr>"

definition gym_spin :: gym_manager where
  "gym_spin = \<lparr>gm_data = doc_spin, gm_file = Some doc_spin\<rparr>"

text \<open>
  A fresh manager after two expenses were added and the first was deleted, and
  the expense added next.
\<close>

definition power_bill :: expense where
  "power_bill = \<lparr>e_id = ''EXP0002'', e_category = ''Power'', e_amount = Fin 200,
     e_date = Some ''2024-01-05'', e_description = []\<rparr>"

definition water_bill :: expense where
  "water_bill = \<lparr>e_id = ''EXP0002'', e_category = ''Water'', e_amount = Fin 50,
     e_date = Some ''2024-01-09'', e_description = []\<rparr>"

definition doc_power :: gym_data where
  "doc_power = create_empty_data\<lparr>expenses := Some [(''EXP0002'', power_bill)]\<rparr>"

definition gym_power :: gym_manager where
  "gym_power = \<lparr>gm_data = doc_power, gm_file = Some doc_power\<rparr>"

text \<open>Alice has paid January, Bob has not.\<close>

definition bob :: member where
  "bob = \<lparr>m_id = ''2'', m_name = ''Bob'', m_phone = ''555-0101'', m_email = [],
     m_photo = None, m_joined_date = ''2024-01-11'', m_active = True,
     m_membership_type = ''Gym'', m_is_trial = False, m_trial_end_date = None\<rparr>"

definition doc_two :: gym_data where
  "doc_two = doc_alice_paid\<lparr>members := [(''1'', alice), (''2'', bob)], next_member_id := 3\<rparr>"

definition gym_two :: gym_manager where
  "gym_two = \<lparr>gm_data = doc_two, gm_file = Some doc_two\<rparr>"

text \<open>Alice has paid 30 for January, and 10 was spent on rent in January.\<close>

definition thirds_fee :: fee where
  "thirds_fee = \<lparr>f_amount = Fin 30, f_paid_date = ''2024-01-15 10:00:00'', f_notes = []\<rparr>"

definition rent :: expense where
  "rent = \<lparr>e_id = ''EXP0001'', e_category = ''Rent'', e_amount = Fin 10,
     e_date = Some ''2024-01-05'', e_description = []\<rparr>"

definition doc_thirds :: gym_data where
  "doc_thirds = doc_alice\<lparr>fees := [(''1'', [(''2024-01'', thirds_fee)])],
                         expenses := Some [(''EXP0001'', rent)]\<rparr>"

definition gym_thirds :: gym_manager where
  "gym_thirds = \<lparr>gm_data = doc_thirds, gm_file = Some doc_thirds\<rparr>"

text \<open>A fresh manager after one expense was added with no date.\<close>

definition undated :: expense where
  "undated = \<lparr>e_id = ''EXP0001'', e_category = ''Rent'', e_amount = Fin 10, e_date = None,
     e_description = []\<rparr>"

definition doc_undated :: gym_data where
  "doc_undated = create_empty_data\<lparr>expenses := Some [(''EXP0001'', undated)]\<rparr>"

definition gym_undated :: gym_manager where
  "gym_undated = \<lparr>gm_data = doc_undated, gm_file = Some doc_undated\<rparr>"

text \<open>
  Bob's account, on the standard plan, whose manual payment is approved on
  10 April 2024 at noon; and a date with an hour of the day.
\<close>

definition bob_account :: user where
  "bob_account = \<lparr>u_password = ''5e884898'', u_joined_at = ''2024-04-01 09:00:00'',
     u_referral_code = None, u_plan = Some ''standard'', u_subscription_expiry = None,
     u_subscription_status = Some ''pending'', u_payment_proof = Some ''proof.png'',
     u_payments = None\<rparr>"

definition bob_approved :: user where
  "bob_approved = bob_account\<lparr>u_subscription_status := Some ''active'',
     u_subscription_expiry := Some ''2024-05-10'',
     u_payments := Some [\<lparr>p_date = ''2024-04-10 12:00:00'', p_amount = Fin 2000,
                           p_method = ''Manual/JazzCash'', p_status = ''Completed''\<rparr>]\<rparr>"

definition at_time :: "nat \<Rightarrow> nat \<Rightarrow> nat \<Rightarrow> nat \<Rightarrow> datetime" where
  "at_time y m d h = \<lparr>dt_year = y, dt_month = m, dt_day = d, dt_hour = h, dt_minute = 0,
     dt_second = 0, dt_microsecond = 0\<rparr>"

section \<open>Properties\<close>

lemma has_key_update [simp]: "has_key (AList.update k v d) k' = (k' = k \<or> has_key d k')"
  by (auto simp: has_key_def update_conv')

lemma has_key_delete [simp]: "has_key (AList.delete k d) k' = (k' \<noteq> k \<and> has_key d k')"
  by (auto simp: has_key_def delete_conv')

subsection \<open>The example documents\<close>

lemmas example_defs =
  gym_alice_def doc_alice_def alice_def gym_alice_paid_def doc_alice_paid_def
  create_empty_data_def

lemma examples_reached:
  "run [AddMember ''Alice'' ''555-0100'' None ''Gym'' (Some ''2024-01-10'') False None
          ''2024-01-12''] (init_manager None) = gym_alice"
  "run [PayFee ''1'' ''2024-01'' (Fin 50) None None ''2024-01-15 10:00:00''] gym_alice = gym_alice_paid"
  by (simp_all add: run_def example_defs add_member_def pay_fee_def has_key_def Let_def
        init_manager_def load_data_def save_data_def str_int_def str_nat.simps digit_char_def)

lemma gym_alice_facts:
  "has_key (members (gm_data gym_alice)) ''1''"
  "\<not> has_key (members (gm_data gym_alice)) ''7''"
  "wf_data (gm_data gym_alice)"
  by (simp_all add: example_defs has_key_def wf_data_def distinct_keys_def opt_keys_ok_def)

lemma gym_alice_paid_facts:
  "has_key (members (gm_data gym_alice_paid)) ''1''"
  "wf_data (gm_data gym_alice_paid)"
  "fst (delete_fee ''1'' ''2024-01'' gym_alice_paid)"
  by (simp_all add: example_defs has_key_def wf_data_def distinct_keys_def opt_keys_ok_def
        delete_fee_def)

lemmas busy_defs = gym_busy_def doc_busy_def

lemma gym_busy_reached:
  "run [LogAttendance ''1'' ''2024-01-16 07:30:00'',
        AddClass ''Yoga'' ''Monday'' ''17:00'' ''Eve'' 1,
        BookClass ''1'' ''1''] gym_alice_paid = gym_busy"
  by (simp add: run_def busy_defs yoga_def example_defs log_attendance_def add_class_def
        book_class_def has_key_def Let_def save_data_def str_nat.simps digit_char_def)

subsection \<open>Dictionary lemmas\<close>

lemma count_update:
  "distinct (map fst al) \<Longrightarrow> length (filter (\<lambda>p. fst p = k) (AList.update k v al)) = 1"
  by (induction al) (auto simp: filter_empty_conv image_iff)

lemma distinct_keys_update: "distinct_keys d \<Longrightarrow> distinct_keys (AList.update k v d)"
  by (simp add: distinct_keys_def distinct_update)

lemma distinct_keys_delete: "distinct_keys d \<Longrightarrow> distinct_keys (AList.delete k d)"
  by (simp add: distinct_keys_def distinct_delete)

lemma list_all_update:
  "list_all P d \<Longrightarrow> P (k, v) \<Longrightarrow> list_all P (AList.update k v d)"
  by (induction d) auto

lemma list_all_delete: "list_all P d \<Longrightarrow> list_all P (AList.delete k d)"
  by (induction d) auto

lemma filter_sorted_reverse:
  "length (filter P (sorted_reverse f xs)) = length (filter P xs)"
proof -
  have "mset (sorted_reverse f xs) = mset xs"
    by (simp add: sorted_reverse_def)
  then have "mset (filter P (sorted_reverse f xs)) = mset (filter P xs)"
    by simp
  then show ?thesis
    by (metis size_mset)
qed

subsection \<open>Fees\<close>

lemma pay_fee_known:
  "has_key (members (gm_data g)) m \<Longrightarrow>
   pay_fee m month a pd n now g =
     (True, save_data (g\<lparr>gm_data := (gm_data g)\<lparr>fees :=
        AList.update m (AList.update month
           \<lparr>f_amount = a,
            f_paid_date = (case pd of None \<Rightarrow> now | Some p \<Rightarrow> if p = [] then now else p),
            f_notes = (case n of None \<Rightarrow> [] | Some x \<Rightarrow> x)\<rparr>
           (case map_of (fees (gm_data g)) m of None \<Rightarrow> [] | Some i \<Rightarrow> i))
          (fees (gm_data g))\<rparr>\<rparr>))"
  by (auto simp: pay_fee_def Let_def has_key_def update_conv' split: option.splits)

lemma wf_inner:
  "wf_data d \<Longrightarrow> map_of (fees d) m = Some inner \<Longrightarrow> distinct (map fst inner)"
  by (auto simp: wf_data_def list_all_iff distinct_keys_def dest!: map_of_SomeD)

lemma month_records_count:
  "map_of (fees (gm_data g)) m = Some inner \<Longrightarrow>
   length (month_records m month g) = length (filter (\<lambda>p. fst p = month) inner)"
  by (simp add: month_records_def get_member_fee_history_def filter_sorted_reverse
      filter_map o_def case_prod_unfold)

lemma pay_fee_count:
  assumes "has_key (members (gm_data g)) m" "wf_data (gm_data g)"
  shows "length (month_records m month (snd (pay_fee m month a pd n now g))) = 1"
proof -
  let ?inner = "case map_of (fees (gm_data g)) m of None \<Rightarrow> [] | Some i \<Rightarrow> i"
  have d: "distinct (map fst ?inner)"
    using assms(2) by (auto split: option.splits dest: wf_inner)
  show ?thesis
    by (simp add: pay_fee_known[OF assms(1)] save_data_def update_conv'
          month_records_count[where inner = "AList.update month _ ?inner"] count_update[OF d])
qed

lemma pay_fee_wf:
  assumes "wf_data (gm_data g)"
  shows "wf_data (gm_data (snd (pay_fee m month a pd n now g)))"
proof (cases "has_key (members (gm_data g)) m")
  case False
  then show ?thesis
    using assms by (simp add: pay_fee_def)
next
  case True
  have "distinct_keys (case map_of (fees (gm_data g)) m of None \<Rightarrow> [] | Some i \<Rightarrow> i)"
    using assms by (auto split: option.splits dest: wf_inner simp: distinct_keys_def)
  then show ?thesis
    using assms
    by (simp add: pay_fee_known[OF True] save_data_def wf_data_def distinct_keys_update
          list_all_update)
qed

lemma pay_fee_members:
  "members (gm_data (snd (pay_fee m month a pd n now g))) = members (gm_data g)"
  by (simp add: pay_fee_def Let_def save_data_def)

text \<open>
  Claim C4. For a member known to the store, \<^verbatim>\<open>pay_fee\<close> succeeds and
  \<^verbatim>\<open>is_fee_paid\<close> for that member and month is true in the state it leaves; in
  the state a successful \<^verbatim>\<open>delete_fee\<close> leaves, \<^verbatim>\<open>is_fee_paid\<close> for that member
  and month is false.
\<close>

theorem fee_paid_after_pay_unpaid_after_delete:
  "(has_key (members (gm_data g)) m \<longrightarrow>
      fst (pay_fee m month a pd n now g) \<and>
      is_fee_paid m month (snd (pay_fee m month a pd n now g))) \<and>
   (fst (delete_fee m month g) \<longrightarrow> \<not> is_fee_paid m month (snd (delete_fee m month g)))"
  by (auto simp: pay_fee_known is_fee_paid_def save_data_def update_conv' delete_fee_def Let_def
      split: option.splits if_splits)

theorem fee_paid_after_pay_unpaid_after_delete_witness:
  "has_key (members (gm_data gym_alice_paid)) ''1'' \<and>
   fst (pay_fee ''1'' ''2024-01'' (Fin 60) None None ''2024-01-20 09:00:00'' gym_alice_paid) \<and>
   is_fee_paid ''1'' ''2024-01''
     (snd (pay_fee ''1'' ''2024-01'' (Fin 60) None None ''2024-01-20 09:00:00'' gym_alice_paid)) \<and>
   fst (delete_fee ''1'' ''2024-01'' gym_alice_paid) \<and>
   \<not> is_fee_paid ''1'' ''2024-01'' (snd (delete_fee ''1'' ''2024-01'' gym_alice_paid))"
proof -
  have k: "has_key (members (gm_data gym_alice_paid)) ''1''"
    by (rule gym_alice_paid_facts)
  have s: "fst (delete_fee ''1'' ''2024-01'' gym_alice_paid)"
    by (rule gym_alice_paid_facts)
  show ?thesis
    using k s
      fee_paid_after_pay_unpaid_after_delete
        [of gym_alice_paid "''1''" "''2024-01''" "Fin 60" None None "''2024-01-20 09:00:00''"]
    by simp
qed

text \<open>
  Claim C5. \<^verbatim>\<open>pay_fee\<close> returns false, changing nothing, when the member is
  unknown. When the member is known it returns true and the fee record for
  that member and month is the new one: the amount given, the paid date given
  (the current timestamp when none is given) and the notes given (empty when
  none are). In a well-formed document the member's fee history then holds
  exactly one entry for that month, also after a second \<^verbatim>\<open>pay_fee\<close> for the same
  member and month.
\<close>

theorem pay_fee_unknown_fails_known_overwrites:
  "(\<not> has_key (members (gm_data g)) m \<longrightarrow> pay_fee m month a pd n now g = (False, g)) \<and>
   (has_key (members (gm_data g)) m \<longrightarrow>
      fst (pay_fee m month a pd n now g) \<and>
      fee_info m month (snd (pay_fee m month a pd n now g)) =
        Some \<lparr>f_amount = a,
              f_paid_date = (case pd of None \<Rightarrow> now | Some p \<Rightarrow> if p = [] then now else p),
              f_notes = (case n of None \<Rightarrow> [] | Some x \<Rightarrow> x)\<rparr>) \<and>
   (has_key (members (gm_data g)) m \<and> wf_data (gm_data g) \<longrightarrow>
      length (month_records m month (snd (pay_fee m month a pd n now g))) = 1 \<and>
      length (month_records m month
        (snd (pay_fee m month a' pd' n' now' (snd (pay_fee m month a pd n now g))))) = 1)"
proof (intro conjI impI)
  assume "\<not> has_key (members (gm_data g)) m"
  then show "pay_fee m month a pd n now g = (False, g)"
    by (simp add: pay_fee_def)
next
  assume k: "has_key (members (gm_data g)) m"
  show "fst (pay_fee m month a pd n now g)"
    by (simp add: pay_fee_known[OF k])
  show "fee_info m month (snd (pay_fee m month a pd n now g)) =
        Some \<lparr>f_amount = a,
              f_paid_date = (case pd of None \<Rightarrow> now | Some p \<Rightarrow> if p = [] then now else p),
              f_notes = (case n of None \<Rightarrow> [] | Some x \<Rightarrow> x)\<rparr>"
    by (simp add: pay_fee_known[OF k] fee_info_def save_data_def update_conv')
next
  assume "has_key (members (gm_data g)) m \<and> wf_data (gm_data g)"
  then have k: "has_key (members (gm_data g)) m" and w: "wf_data (gm_data g)"
    by simp_all
  show "length (month_records m month (snd (pay_fee m month a pd n now g))) = 1"
    by (rule pay_fee_count[OF k w])
  have k': "has_key (members (gm_data (snd (pay_fee m month a pd n now g)))) m"
    using k by (simp add: pay_fee_members)
  show "length (month_records m month
        (snd (pay_fee m month a' pd' n' now' (snd (pay_fee m month a pd n now g))))) = 1"
    by (rule pay_fee_count[OF k' pay_fee_wf[OF w]])
qed

theorem pay_fee_unknown_fails_known_overwrites_witness:
  "has_key (members (gm_data gym_alice)) ''1'' \<and> wf_data (gm_data gym_alice) \<and>
   fst (pay_fee ''1'' ''2024-01'' (Fin 50) None (Some ''cash'') ''2024-01-15 10:00:00'' gym_alice) \<and>
   fee_info ''1'' ''2024-01''
     (snd (pay_fee ''1'' ''2024-01'' (Fin 50) None (Some ''cash'') ''2024-01-15 10:00:00'' gym_alice)) =
     Some \<lparr>f_amount = Fin 50, f_paid_date = ''2024-01-15 10:00:00'', f_notes = ''cash''\<rparr> \<and>
   length (month_records ''1'' ''2024-01''
     (snd (pay_fee ''1'' ''2024-01'' (Fin 50) None (Some ''cash'') ''2024-01-15 10:00:00'' gym_alice)))
     = 1 \<and>
   length (month_records ''1'' ''2024-01''
     (snd (pay_fee ''1'' ''2024-01'' (Fin 75) (Some ''2024-01-20'') None ''2024-01-21 08:00:00''
        (snd (pay_fee ''1'' ''2024-01'' (Fin 50) None (Some ''cash'') ''2024-01-15 10:00:00''
                gym_alice))))) = 1 \<and>
   \<not> has_key (members (gm_data gym_alice)) ''7'' \<and>
   pay_fee ''7'' ''2024-01'' (Fin 50) None None ''2024-01-15 10:00:00'' gym_alice = (False, gym_alice)"
proof -
  have k: "has_key (members (gm_data gym_alice)) ''1''"
    by (rule gym_alice_facts)
  have w: "wf_data (gm_data gym_alice)"
    by (rule gym_alice_facts)
  have u: "\<not> has_key (members (gm_data gym_alice)) ''7''"
    by (rule gym_alice_facts)
  show ?thesis
    using k w u
      pay_fee_unknown_fails_known_overwrites
        [of gym_alice "''1''" "''2024-01''" "Fin 50" None "Some ''cash''" "''2024-01-15 10:00:00''"
            "Fin 75" "Some ''2024-01-20''" None "''2024-01-21 08:00:00''"]
      pay_fee_unknown_fails_known_overwrites
        [of gym_alice "''7''" "''2024-01''" "Fin 50" None None "''2024-01-15 10:00:00''"]
    by simp
qed

subsection \<open>Failure leaves the manager as it was\<close>

lemma pay_fee_fail:
  "\<not> fst (pay_fee m month a pd n now g) \<Longrightarrow> snd (pay_fee m month a pd n now g) = g"
  by (simp add: pay_fee_def Let_def split: if_splits)

lemma delete_fee_fail: "\<not> fst (delete_fee m month g) \<Longrightarrow> snd (delete_fee m month g) = g"
  by (simp add: delete_fee_def Let_def split: option.splits if_splits)

lemma update_fee_fail:
  "\<not> fst (update_fee m month a dt n g) \<Longrightarrow> snd (update_fee m month a dt n g) = g"
  by (auto simp: update_fee_def Let_def split: option.splits)

lemma update_member_fail:
  "\<not> fst (update_member m nm ph mt jd em g) \<Longrightarrow> snd (update_member m nm ph mt jd em g) = g"
  by (auto simp: update_member_def Let_def split: option.splits)

lemma delete_member_fail: "\<not> fst (delete_member m g) \<Longrightarrow> snd (delete_member m g) = g"
  by (simp add: delete_member_def Let_def split: if_splits)

lemma delete_expense_fail: "\<not> fst (delete_expense e g) \<Longrightarrow> snd (delete_expense e g) = g"
  by (simp add: delete_expense_def Let_def split: option.splits if_splits)

lemma log_attendance_fail:
  "\<not> fst (log_attendance m ts g) \<Longrightarrow> snd (log_attendance m ts g) = g"
  by (simp add: log_attendance_def Let_def split: if_splits)

lemma book_class_fail: "\<not> fst (book_class m c g) \<Longrightarrow> snd (book_class m c g) = g"
  by (simp add: book_class_def Let_def split: option.splits if_splits)

text \<open>
  Claim C10. Each of \<^verbatim>\<open>pay_fee\<close>, \<^verbatim>\<open>delete_fee\<close>, \<^verbatim>\<open>update_fee\<close>,
  \<^verbatim>\<open>update_member\<close>, \<^verbatim>\<open>delete_member\<close>, \<^verbatim>\<open>delete_expense\<close>, \<^verbatim>\<open>log_attendance\<close> and
  \<^verbatim>\<open>book_class\<close>, when it returns false, leaves the manager exactly as it was:
  the document in memory is the same and the file is the same (nothing is
  saved).
\<close>

theorem failure_is_atomic:
  "(\<not> fst (pay_fee m month a pd n now g) \<longrightarrow> snd (pay_fee m month a pd n now g) = g) \<and>
   (\<not> fst (delete_fee m month g) \<longrightarrow> snd (delete_fee m month g) = g) \<and>
   (\<not> fst (update_fee m month a dt n g) \<longrightarrow> snd (update_fee m month a dt n g) = g) \<and>
   (\<not> fst (update_member m nm ph mt jd em g) \<longrightarrow>
      snd (update_member m nm ph mt jd em g) = g) \<and>
   (\<not> fst (delete_member m g) \<longrightarrow> snd (delete_member m g) = g) \<and>
   (\<not> fst (delete_expense e g) \<longrightarrow> snd (delete_expense e g) = g) \<and>
   (\<not> fst (log_attendance m ts g) \<longrightarrow> snd (log_attendance m ts g) = g) \<and>
   (\<not> fst (book_class m c g) \<longrightarrow> snd (book_class m c g) = g)"
  by (intro conjI impI pay_fee_fail delete_fee_fail update_fee_fail update_member_fail
      delete_member_fail delete_expense_fail log_attendance_fail book_class_fail)

theorem failure_is_atomic_witness:
  "\<not> fst (pay_fee ''7'' ''2024-02'' (Fin 10) None None ''2024-02-01 09:00:00'' gym_busy) \<and>
   snd (pay_fee ''7'' ''2024-02'' (Fin 10) None None ''2024-02-01 09:00:00'' gym_busy) = gym_busy \<and>
   \<not> fst (delete_fee ''7'' ''2024-02'' gym_busy) \<and>
   snd (delete_fee ''7'' ''2024-02'' gym_busy) = gym_busy \<and>
   \<not> fst (update_fee ''7'' ''2024-02'' (Fin 10) ''2024-02-01'' None gym_busy) \<and>
   snd (update_fee ''7'' ''2024-02'' (Fin 10) ''2024-02-01'' None gym_busy) = gym_busy \<and>
   \<not> fst (update_member ''7'' ''Bob'' ''555-0101'' ''Gym'' None None gym_busy) \<and>
   snd (update_member ''7'' ''Bob'' ''555-0101'' ''Gym'' None None gym_busy) = gym_busy \<and>
   \<not> fst (delete_member ''7'' gym_busy) \<and>
   snd (delete_member ''7'' gym_busy) = gym_busy \<and>
   \<not> fst (delete_expense ''EXP0001'' gym_busy) \<and>
   snd (delete_expense ''EXP0001'' gym_busy) = gym_busy \<and>
   \<not> fst (log_attendance ''7'' ''2024-02-01 09:00:00'' gym_busy) \<and>
   snd (log_attendance ''7'' ''2024-02-01 09:00:00'' gym_busy) = gym_busy \<and>
   \<not> fst (book_class ''7'' ''1'' gym_busy) \<and>
   snd (book_class ''7'' ''1'' gym_busy) = gym_busy"
proof -
  have f:
    "\<not> fst (pay_fee ''7'' ''2024-02'' (Fin 10) None None ''2024-02-01 09:00:00'' gym_busy)"
    "\<not> fst (delete_fee ''7'' ''2024-02'' gym_busy)"
    "\<not> fst (update_fee ''7'' ''2024-02'' (Fin 10) ''2024-02-01'' None gym_busy)"
    "\<not> fst (update_member ''7'' ''Bob'' ''555-0101'' ''Gym'' None None gym_busy)"
    "\<not> fst (delete_member ''7'' gym_busy)"
    "\<not> fst (delete_expense ''EXP0001'' gym_busy)"
    "\<not> fst (log_attendance ''7'' ''2024-02-01 09:00:00'' gym_busy)"
    "\<not> fst (book_class ''7'' ''1'' gym_busy)"
    by (simp_all add: busy_defs yoga_def example_defs has_key_def pay_fee_def delete_fee_def
          update_fee_def update_member_def delete_member_def delete_expense_def
          log_attendance_def book_class_def Let_def)
  show ?thesis
    using f
      failure_is_atomic
        [of "''7''" "''2024-02''" "Fin 10" None None "''2024-02-01 09:00:00''" gym_busy
            "''2024-02-01''" "''Bob''" "''555-0101''" "''Gym''" None None "''EXP0001''"
            "''2024-02-01 09:00:00''" "''1''"]
    by simp
qed

subsection \<open>Booking and deleting\<close>

text \<open>
  Claim C6. For a member already in the attendee list of a class,
  \<^verbatim>\<open>book_class\<close> returns true and leaves the manager, hence the attendee list
  and its length, unchanged; the capacity is not looked at.
\<close>

theorem book_class_idempotent:
  "classes (gm_data g) = Some cs \<and> map_of cs class_id = Some cls \<and>
   member_id \<in> set (c_attendees cls) \<longrightarrow>
     book_class member_id class_id g = (True, g)"
  by (simp add: book_class_def)

theorem book_class_idempotent_witness:
  "classes (gm_data gym_busy) = Some [(''1'', yoga)] \<and>
   map_of [(''1'', yoga)] ''1'' = Some yoga \<and> ''1'' \<in> set (c_attendees yoga) \<and>
   int (length (c_attendees yoga)) = c_capacity yoga \<and>
   book_class ''1'' ''1'' gym_busy = (True, gym_busy)"
proof -
  have h: "classes (gm_data gym_busy) = Some [(''1'', yoga)]"
    "map_of [(''1'', yoga)] ''1'' = Some yoga" "''1'' \<in> set (c_attendees yoga)"
    "int (length (c_attendees yoga)) = c_capacity yoga"
    by (simp_all add: busy_defs yoga_def)
  show ?thesis
    using h book_class_idempotent [of gym_busy "[(''1'', yoga)]" "''1''" yoga "''1''"]
    by simp
qed

lemma delete_absent: "\<not> has_key d k \<Longrightarrow> AList.delete k d = d"
  by (simp add: has_key_def map_of_eq_None_iff)

lemma delete_member_known:
  "has_key (members (gm_data g)) m \<Longrightarrow>
   delete_member m g =
     (True, save_data (g\<lparr>gm_data :=
        (gm_data g)\<lparr>members := AList.delete m (members (gm_data g)),
                     fees := AList.delete m (fees (gm_data g))\<rparr>\<rparr>))"
  by (simp add: delete_member_def Let_def delete_absent)

lemma delete_member_unknown:
  "\<not> has_key (members (gm_data g)) m \<Longrightarrow> delete_member m g = (False, g)"
  by (simp add: delete_member_def)

text \<open>
  Claim C9. After a successful \<^verbatim>\<open>delete_member\<close>, \<^verbatim>\<open>get_member\<close> finds nothing
  for the member and the fees mapping has no entry for the member; the new
  document is the old one with that key removed from \<^verbatim>\<open>members\<close> and from
  \<^verbatim>\<open>fees\<close>, and nothing else changed: in particular the attendance log and the
  classes, with their attendee lists, are as before.
\<close>

theorem delete_member_frame:
  "fst (delete_member m g) \<longrightarrow>
     get_member m (snd (delete_member m g)) = None \<and>
     map_of (fees (gm_data (snd (delete_member m g)))) m = None \<and>
     gm_data (snd (delete_member m g)) =
       (gm_data g)\<lparr>members := AList.delete m (members (gm_data g)),
                    fees := AList.delete m (fees (gm_data g))\<rparr> \<and>
     attendance (gm_data (snd (delete_member m g))) = attendance (gm_data g) \<and>
     classes (gm_data (snd (delete_member m g))) = classes (gm_data g)"
proof (cases "has_key (members (gm_data g)) m")
  case True
  show ?thesis
    by (simp add: delete_member_known[OF True] save_data_def get_member_def delete_conv')
next
  case False
  then show ?thesis
    by (simp add: delete_member_unknown)
qed

theorem delete_member_frame_witness:
  "fst (delete_member ''1'' gym_busy) \<and>
   get_member ''1'' (snd (delete_member ''1'' gym_busy)) = None \<and>
   map_of (fees (gm_data (snd (delete_member ''1'' gym_busy)))) ''1'' = None \<and>
   attendance (gm_data (snd (delete_member ''1'' gym_busy))) =
     Some [(''1'', [''2024-01-16 07:30:00''])] \<and>
   classes (gm_data (snd (delete_member ''1'' gym_busy))) = Some [(''1'', yoga)]"
proof -
  have s: "fst (delete_member ''1'' gym_busy)"
    by (simp add: busy_defs example_defs delete_member_def has_key_def)
  have a: "attendance (gm_data gym_busy) = Some [(''1'', [''2024-01-16 07:30:00''])]"
    "classes (gm_data gym_busy) = Some [(''1'', yoga)]"
    by (simp_all add: busy_defs)
  show ?thesis
    using s a delete_member_frame [of "''1''" gym_busy]
    by (simp add: delete_conv')
qed

subsection \<open>The capacity of a class\<close>

lemma capacity_ok_cong: "classes d' = classes d \<Longrightarrow> capacity_ok d' = capacity_ok d"
  by (simp add: capacity_ok_def)

lemma capacity_inv_save:
  "capacity_ok d' \<Longrightarrow> capacity_inv (save_data (g\<lparr>gm_data := d'\<rparr>))"
  by (simp add: capacity_inv_def save_data_def)

lemma capacity_inv_same_classes:
  "capacity_inv g \<Longrightarrow> classes d' = classes (gm_data g) \<Longrightarrow>
   capacity_inv (save_data (g\<lparr>gm_data := d'\<rparr>))"
  by (simp add: capacity_inv_def save_data_def capacity_ok_def)

lemma cap_add_member:
  "capacity_inv g \<Longrightarrow> add_member n p ph mt jd tr em today g = Inr (i, g') \<Longrightarrow> capacity_inv g'"
  by (auto simp: add_member_def Let_def split: sum.splits intro!: capacity_inv_same_classes)

lemma cap_update_member: "capacity_inv g \<Longrightarrow> capacity_inv (snd (update_member i n p mt jd em g))"
  by (auto simp: update_member_def Let_def split: option.splits intro!: capacity_inv_same_classes)

lemma cap_delete_member: "capacity_inv g \<Longrightarrow> capacity_inv (snd (delete_member i g))"
  by (auto simp: delete_member_def Let_def intro!: capacity_inv_same_classes)

lemma cap_add_expense: "capacity_inv g \<Longrightarrow> capacity_inv (snd (add_expense c a dt ds g))"
  by (auto simp: add_expense_def Let_def intro!: capacity_inv_same_classes)

lemma cap_delete_expense: "capacity_inv g \<Longrightarrow> capacity_inv (snd (delete_expense i g))"
  by (auto simp: delete_expense_def Let_def split: option.splits intro!: capacity_inv_same_classes)

lemma cap_pay_fee: "capacity_inv g \<Longrightarrow> capacity_inv (snd (pay_fee i m a pd n now g))"
  by (auto simp: pay_fee_def Let_def intro!: capacity_inv_same_classes)

lemma cap_delete_fee: "capacity_inv g \<Longrightarrow> capacity_inv (snd (delete_fee i m g))"
  by (auto simp: delete_fee_def Let_def split: option.splits intro!: capacity_inv_same_classes)

lemma cap_update_fee: "capacity_inv g \<Longrightarrow> capacity_inv (snd (update_fee i m a dt n g))"
  by (auto simp: update_fee_def Let_def split: option.splits intro!: capacity_inv_same_classes)

lemma cap_log_attendance: "capacity_inv g \<Longrightarrow> capacity_inv (snd (log_attendance i ts g))"
  by (auto simp: log_attendance_def Let_def intro!: capacity_inv_same_classes)

lemma cap_add_class:
  assumes "capacity_inv g"
  shows "capacity_inv (snd (add_class n dy tm ins cap g))"
proof -
  let ?cs = "case classes (gm_data g) of None \<Rightarrow> [] | Some c \<Rightarrow> c"
  have "list_all (\<lambda>(k, c). within_capacity c) ?cs"
    using assms by (auto simp: capacity_inv_def capacity_ok_def split: option.splits)
  then have "capacity_ok ((gm_data g)\<lparr>classes := Some (AList.update k c ?cs)\<rparr>)"
    if "within_capacity c" for k c
    using that by (simp add: capacity_ok_def list_all_update)
  then show ?thesis
    by (simp add: add_class_def Let_def capacity_inv_save within_capacity_def)
qed

lemma cap_book_class:
  assumes inv: "capacity_inv g"
  shows "capacity_inv (snd (book_class i c g))"
proof (cases "classes (gm_data g)")
  case None
  then show ?thesis
    using inv by (simp add: book_class_def)
next
  case cs: (Some cs)
  show ?thesis
  proof (cases "map_of cs c")
    case None
    then show ?thesis
      using cs inv by (simp add: book_class_def)
  next
    case (Some cls)
    have all: "list_all (\<lambda>(k, c). within_capacity c) cs"
      using inv cs by (simp add: capacity_inv_def capacity_ok_def)
    have "capacity_ok ((gm_data g)\<lparr>classes := Some (AList.update c
            (cls\<lparr>c_attendees := c_attendees cls @ [i]\<rparr>) cs)\<rparr>)"
      if "int (length (c_attendees cls)) < c_capacity cls"
    proof -
      have "within_capacity (cls\<lparr>c_attendees := c_attendees cls @ [i]\<rparr>)"
        using that by (simp add: within_capacity_def)
      then show ?thesis
        using all by (simp add: capacity_ok_def list_all_update)
    qed
    then show ?thesis
      using inv cs Some
      by (auto simp: book_class_def Let_def intro!: capacity_inv_save)
  qed
qed

lemma cap_get_gym_details: "capacity_inv g \<Longrightarrow> capacity_inv (snd (get_gym_details g))"
  by (auto simp: get_gym_details_def Let_def capacity_inv_def capacity_ok_def save_data_def
      split: option.splits)

lemma cap_update_gym_details:
  "capacity_inv g \<Longrightarrow> capacity_inv (snd (update_gym_details n l c g))"
  by (auto simp: update_gym_details_def Let_def intro!: capacity_inv_same_classes)

lemma cap_reset: "capacity_inv (snd (reset_data g))"
  by (simp add: reset_data_def capacity_inv_def capacity_ok_def save_data_def create_empty_data_def)

lemma cap_reload: "capacity_inv g \<Longrightarrow> capacity_inv (init_manager (gm_file g))"
  by (auto simp: init_manager_def load_data_def capacity_inv_def capacity_ok_def create_empty_data_def
      split: option.splits)

lemma cap_apply_call: "capacity_inv g \<Longrightarrow> capacity_inv (apply_call c g)"
proof (cases c)
  case (AddMember n p ph mt jd tr em today)
  assume "capacity_inv g"
  then show ?thesis
    using AddMember cap_add_member[of g n p ph mt jd tr em today]
    by (auto split: sum.splits)
qed (simp_all add: cap_update_member cap_delete_member cap_add_expense cap_delete_expense
      cap_pay_fee cap_delete_fee cap_update_fee cap_log_attendance cap_add_class cap_book_class
      cap_get_gym_details cap_update_gym_details cap_reset cap_reload)

lemma cap_run: "capacity_inv g \<Longrightarrow> capacity_inv (run cs g)"
  unfolding run_def by (induction cs arbitrary: g) (simp_all add: cap_apply_call)

lemma cap_init: "capacity_inv (init_manager None)"
  by (simp add: init_manager_def load_data_def capacity_inv_def capacity_ok_def create_empty_data_def)

text \<open>
  Claim C2, as stated, fails: a class created with a negative capacity has an
  empty attendee list, which is longer than its capacity.
\<close>

theorem negative_capacity_exceeded:
  "run [AddClass ''Spin'' ''Tuesday'' ''18:00'' ''Eve'' (- 1)] (init_manager None) = gym_spin \<and>
   classes (gm_data gym_spin) = Some [(''1'', spin)] \<and>
   \<not> int (length (c_attendees spin)) \<le> c_capacity spin"
  by (simp add: run_def gym_spin_def doc_spin_def spin_def add_class_def Let_def
        init_manager_def load_data_def create_empty_data_def save_data_def str_nat.simps
        digit_char_def)

text \<open>
  Claim C2, amended. For a class whose attendee list is as long as its capacity
  and a member not in the list, \<^verbatim>\<open>book_class\<close> returns false and leaves the
  manager unchanged. Consequently, under any sequence of calls, from a fresh
  manager or from any manager where it holds, every class has at most
  \<open>max 0 capacity\<close> attendees.
\<close>

theorem book_class_respects_capacity:
  "(classes (gm_data g) = Some cs \<and> map_of cs class_id = Some cls \<and>
    member_id \<notin> set (c_attendees cls) \<and> int (length (c_attendees cls)) = c_capacity cls \<longrightarrow>
      book_class member_id class_id g = (False, g)) \<and>
   (capacity_inv g \<longrightarrow> capacity_inv (run calls g)) \<and>
   capacity_inv (run calls (init_manager None))"
  by (simp add: book_class_def cap_run cap_init)

theorem book_class_respects_capacity_witness:
  "classes (gm_data gym_busy) = Some [(''1'', yoga)] \<and>
   map_of [(''1'', yoga)] ''1'' = Some yoga \<and> ''7'' \<notin> set (c_attendees yoga) \<and>
   int (length (c_attendees yoga)) = c_capacity yoga \<and>
   book_class ''7'' ''1'' gym_busy = (False, gym_busy) \<and>
   capacity_inv gym_busy \<and>
   capacity_inv (run [AddClass ''Spin'' ''Tuesday'' ''18:00'' ''Eve'' 2, BookClass ''1'' ''2'',
                      BookClass ''7'' ''2'', BookClass ''8'' ''2''] gym_busy)"
proof -
  have h: "classes (gm_data gym_busy) = Some [(''1'', yoga)]"
    "map_of [(''1'', yoga)] ''1'' = Some yoga" "''7'' \<notin> set (c_attendees yoga)"
    "int (length (c_attendees yoga)) = c_capacity yoga"
    by (simp_all add: busy_defs yoga_def)
  have i: "capacity_inv gym_busy"
    by (simp add: busy_defs yoga_def example_defs capacity_inv_def capacity_ok_def
          within_capacity_def)
  show ?thesis
    using h i
      book_class_respects_capacity
        [of gym_busy "[(''1'', yoga)]" "''1''" yoga "''7''"
            "[AddClass ''Spin'' ''Tuesday'' ''18:00'' ''Eve'' 2, BookClass ''1'' ''2'',
              BookClass ''7'' ''2'', BookClass ''8'' ''2'']"]
    by simp
qed

subsection \<open>Decimal numerals\<close>

lemma digit_val_digit_char: "d < 10 \<Longrightarrow> digit_val (digit_char d) = Some d"
proof -
  assume "d < 10"
  then have "d \<in> {0, 1, 2, 3, 4, 5, 6, 7, 8, 9}"
    by auto
  then show ?thesis
    by (auto simp: digit_val_def digit_char_def)
qed

lemma str_nat_digits: "list_all (\<lambda>c. digit_val c \<noteq> None) (str_nat n) \<and> str_nat n \<noteq> [] \<and>
   foldl (\<lambda>a c. 10 * a + (case digit_val c of Some v \<Rightarrow> v | None \<Rightarrow> 0)) 0 (str_nat n) = n"
proof (induction n rule: str_nat.induct)
  case (1 n)
  show ?case
  proof (cases "n < 10")
    case True
    then show ?thesis
      by (subst (1 2 3) str_nat.simps) (simp add: digit_val_digit_char)
  next
    case False
    then show ?thesis
      using 1
      by (subst (1 2 3) str_nat.simps) (simp add: digit_val_digit_char)
  qed
qed

lemma digit_zero: "digit_val (CHR ''0'') = Some 0"
  by (simp add: digit_val_def)

lemma foldl_zeros:
  "foldl (\<lambda>a c. 10 * a + (case digit_val c of Some v \<Rightarrow> v | None \<Rightarrow> 0)) 0 (replicate k (CHR ''0'') @ s)
   = foldl (\<lambda>a c. 10 * a + (case digit_val c of Some v \<Rightarrow> v | None \<Rightarrow> 0)) 0 s"
  by (induction k) (simp_all add: digit_zero)

lemma zeros_are_digits: "list_all (\<lambda>c. digit_val c \<noteq> None) (replicate k (CHR ''0''))"
  by (induction k) (simp_all add: digit_zero)

lemma zero_pad_value: "digits_val (zero_pad w n) = Some n"
  using str_nat_digits[of n] zeros_are_digits[of "w - length (str_nat n)"]
  by (simp add: digits_val_def zero_pad_def foldl_zeros del: foldl_append)

lemma zero_pad_length: "length (zero_pad w n) = max w (length (str_nat n))"
  by (simp add: zero_pad_def)

lemma str_nat_length: "n < 10 ^ k \<Longrightarrow> 0 < k \<Longrightarrow> length (str_nat n) \<le> k"
proof (induction n arbitrary: k rule: str_nat.induct)
  case (1 n)
  show ?case
  proof (cases "n < 10")
    case True
    then show ?thesis using 1(3) by (subst str_nat.simps) simp
  next
    case False
    obtain j where k: "k = Suc j" using 1(3) by (cases k) auto
    have "j > 0" using False 1(2) k by (cases j) auto
    moreover have "n div 10 < 10 ^ j" using 1(2) k by (simp add: less_mult_imp_div_less mult.commute)
    ultimately have "length (str_nat (n div 10)) \<le> j" using 1(1)[OF False] by simp
    then show ?thesis using False k by (subst str_nat.simps) simp
  qed
qed

lemma zero_pad_4: "n < 10000 \<Longrightarrow> length (zero_pad 4 n) = 4"
  using str_nat_length[of n 4] by (simp add: zero_pad_length)

subsection \<open>Expense identifiers\<close>

lemma add_expense_stored:
  "stored_expenses (snd (add_expense c a dt ds g)) =
     AList.update (''EXP'' @ zero_pad 4 (length (stored_expenses g) + 1))
       \<lparr>e_id = ''EXP'' @ zero_pad 4 (length (stored_expenses g) + 1), e_category = c,
        e_amount = a, e_date = dt, e_description = ds\<rparr>
       (stored_expenses g)"
  by (simp add: add_expense_def stored_expenses_def Let_def save_data_def)

lemma zero_pad_examples:
  "zero_pad 4 (Suc 0) = ''0001''" "zero_pad 4 (Suc (Suc 0)) = ''0002''"
  by (simp_all add: zero_pad_def str_nat.simps digit_char_def eval_nat_numeral)

lemma gym_power_count: "length (stored_expenses gym_power) = Suc 0"
  by (simp add: stored_expenses_def gym_power_def doc_power_def)

lemma gym_power_reached:
  "run [AddExpense ''Rent'' (Fin 1000) (Some ''2024-01-01'') [], AddExpense ''Power'' (Fin 200) (Some ''2024-01-05'') [],
        DeleteExpense ''EXP0001''] (init_manager None) = gym_power"
  by (simp add: run_def gym_power_def doc_power_def power_bill_def add_expense_def
        delete_expense_def has_key_def Let_def init_manager_def load_data_def
        create_empty_data_def save_data_def zero_pad_examples)

text \<open>
  Claim C3. \<^verbatim>\<open>add_expense\<close> succeeds and stores the new expense under the
  identifier \<^verbatim>\<open>EXP\<close> followed by \<open>n\<close>, the number of stored expenses plus one,
  written in decimal with zeros on the left up to four digits (exactly four
  when \<open>n < 10000\<close>). So an identifier can be assigned that a stored expense
  already has: on a fresh manager, after two additions and the deletion of
  \<^verbatim>\<open>EXP0001\<close>, the expense \<^verbatim>\<open>EXP0002\<close> is stored, and the next addition is
  given \<^verbatim>\<open>EXP0002\<close> again.
\<close>

theorem expense_id_from_count_collides:
  "fst (add_expense c a dt ds g) \<and>
   map_of (stored_expenses (snd (add_expense c a dt ds g)))
       (''EXP'' @ zero_pad 4 (length (stored_expenses g) + 1)) =
     Some \<lparr>e_id = ''EXP'' @ zero_pad 4 (length (stored_expenses g) + 1), e_category = c,
           e_amount = a, e_date = dt, e_description = ds\<rparr> \<and>
   digits_val (zero_pad 4 (length (stored_expenses g) + 1)) =
     Some (length (stored_expenses g) + 1) \<and>
   (length (stored_expenses g) + 1 < 10000 \<longrightarrow>
      length (zero_pad 4 (length (stored_expenses g) + 1)) = 4) \<and>
   run [AddExpense ''Rent'' (Fin 1000) (Some ''2024-01-01'') [], AddExpense ''Power'' (Fin 200) (Some ''2024-01-05'') [],
        DeleteExpense ''EXP0001''] (init_manager None) = gym_power \<and>
   map_of (stored_expenses gym_power) ''EXP0002'' = Some power_bill \<and>
   map_of (stored_expenses (snd (add_expense ''Water'' (Fin 50) (Some ''2024-01-09'') [] gym_power)))
       ''EXP0002'' = Some water_bill \<and>
   e_id water_bill = e_id power_bill \<and> water_bill \<noteq> power_bill"
proof (intro conjI)
  show "fst (add_expense c a dt ds g)"
    by (simp add: add_expense_def Let_def)
  show "map_of (stored_expenses (snd (add_expense c a dt ds g)))
       (''EXP'' @ zero_pad 4 (length (stored_expenses g) + 1)) =
     Some \<lparr>e_id = ''EXP'' @ zero_pad 4 (length (stored_expenses g) + 1), e_category = c,
           e_amount = a, e_date = dt, e_description = ds\<rparr>"
    by (simp add: add_expense_stored update_conv')
  show "digits_val (zero_pad 4 (length (stored_expenses g) + 1)) =
     Some (length (stored_expenses g) + 1)"
    by (rule zero_pad_value)
  show "length (stored_expenses g) + 1 < 10000 \<longrightarrow>
      length (zero_pad 4 (length (stored_expenses g) + 1)) = 4"
    by (simp add: zero_pad_4)
  show "run [AddExpense ''Rent'' (Fin 1000) (Some ''2024-01-01'') [],
        AddExpense ''Power'' (Fin 200) (Some ''2024-01-05'') [],
        DeleteExpense ''EXP0001''] (init_manager None) = gym_power"
    by (rule gym_power_reached)
  show "map_of (stored_expenses gym_power) ''EXP0002'' = Some power_bill"
    by (simp add: stored_expenses_def gym_power_def doc_power_def)
  show "map_of (stored_expenses (snd (add_expense ''Water'' (Fin 50) (Some ''2024-01-09'') [] gym_power)))
       ''EXP0002'' = Some water_bill"
    by (simp add: add_expense_stored update_conv' gym_power_count zero_pad_examples
          water_bill_def)
  show "e_id water_bill = e_id power_bill"
    by (simp add: water_bill_def power_bill_def)
  show "water_bill \<noteq> power_bill"
    by (simp add: water_bill_def power_bill_def)
qed

theorem expense_id_from_count_collides_witness:
  "length (stored_expenses gym_power) + 1 < 10000 \<and>
   zero_pad 4 (length (stored_expenses gym_power) + 1) = ''0002'' \<and>
   length (zero_pad 4 (length (stored_expenses gym_power) + 1)) = 4 \<and>
   map_of (stored_expenses gym_power) ''EXP0002'' = Some power_bill \<and>
   map_of (stored_expenses (snd (add_expense ''Water'' (Fin 50) (Some ''2024-01-09'') [] gym_power)))
       ''EXP0002'' = Some water_bill"
proof -
  have n: "length (stored_expenses gym_power) + 1 < 10000"
    by (simp add: stored_expenses_def gym_power_def doc_power_def)
  have z: "zero_pad 4 (length (stored_expenses gym_power) + 1) = ''0002''"
    by (simp add: gym_power_count zero_pad_examples)
  note t = expense_id_from_count_collides [of "''Water''" "Fin 50" "Some ''2024-01-09''" "[]" gym_power]
  have l: "length (zero_pad 4 (length (stored_expenses gym_power) + 1)) = 4"
    using t n by blast
  have m: "map_of (stored_expenses gym_power) ''EXP0002'' = Some power_bill"
    "map_of (stored_expenses (snd (add_expense ''Water'' (Fin 50) (Some ''2024-01-09'') [] gym_power)))
       ''EXP0002'' = Some water_bill"
    using t by blast+
  show ?thesis
    using n z l m by blast
qed

subsection \<open>Payment status\<close>

lemma is_fee_paid_iff: "is_fee_paid k month g \<longleftrightarrow> fee_info k month g \<noteq> None"
  by (simp add: is_fee_paid_def fee_info_def has_key_def split: option.splits)

lemma payment_loop_eq:
  "payment_loop g month ms paid unpaid =
     (paid @ List.map_filter (paid_entry_of g month) ms,
      unpaid @ map snd (filter (\<lambda>km. \<not> is_fee_paid (fst km) month g) ms))"
proof (induction ms arbitrary: paid unpaid)
  case Nil
  then show ?case by (simp add: map_filter_simps)
next
  case (Cons km ms)
  obtain k m where km: "km = (k, m)" by (cases km)
  show ?case
  proof (cases "fee_info k month g")
    case None
    then show ?thesis
      using Cons km by (simp add: is_fee_paid_iff map_filter_simps paid_entry_of_def)
  next
    case (Some f)
    then show ?thesis
      using Cons km by (simp add: is_fee_paid_iff map_filter_simps paid_entry_of_def)
  qed
qed

lemma get_payment_status_eq:
  "get_payment_status month this_month g =
     (List.map_filter (paid_entry_of g (case month of None \<Rightarrow> this_month | Some m \<Rightarrow> m))
        (members (gm_data g)),
      map snd (filter (\<lambda>km. \<not> is_fee_paid (fst km)
                 (case month of None \<Rightarrow> this_month | Some m \<Rightarrow> m) g) (members (gm_data g))))"
  by (simp add: get_payment_status_def payment_loop_eq)

lemma paid_ids:
  assumes "member_ids_ok (gm_data g)"
  shows "map (m_id \<circ> pe_member) (List.map_filter (paid_entry_of g mo) (members (gm_data g)))
         = map fst (filter (\<lambda>km. is_fee_paid (fst km) mo g) (members (gm_data g)))"
proof -
  have "list_all (\<lambda>(k, m). m_id m = k) ms \<Longrightarrow>
        map (m_id \<circ> pe_member) (List.map_filter (paid_entry_of g mo) ms)
         = map fst (filter (\<lambda>km. is_fee_paid (fst km) mo g) ms)" for ms
    by (induction ms)
       (auto simp: map_filter_simps paid_entry_of_def is_fee_paid_iff split: option.splits)
  then show ?thesis using assms by (simp add: member_ids_ok_def)
qed

lemma ids_of_filtered:
  "list_all (\<lambda>(k, m). m_id m = k) ms \<Longrightarrow>
   map m_id (map snd (filter P ms)) = map fst (filter P ms)"
proof (induction ms)
  case Nil
  then show ?case by simp
next
  case (Cons km ms)
  obtain k m where km: "km = (k, m)" by (cases km)
  from Cons.prems km have h: "m_id m = k" and t: "list_all (\<lambda>(k, m). m_id m = k) ms"
    by simp_all
  show ?case
    using Cons.IH[OF t] h km by simp
qed

lemma unpaid_ids:
  assumes "member_ids_ok (gm_data g)"
  shows "map m_id (map snd (filter (\<lambda>km. \<not> is_fee_paid (fst km) mo g) (members (gm_data g))))
         = map fst (filter (\<lambda>km. \<not> is_fee_paid (fst km) mo g) (members (gm_data g)))"
  using assms unfolding member_ids_ok_def by (rule ids_of_filtered)

lemma paid_entries_carry:
  assumes "member_ids_ok (gm_data g)"
    and "e \<in> set (List.map_filter (paid_entry_of g mo) (members (gm_data g)))"
  shows "\<exists>f. fee_info (m_id (pe_member e)) mo g = Some f \<and>
             (m_id (pe_member e), pe_member e) \<in> set (members (gm_data g)) \<and>
             pe_last_paid e = f_paid_date f \<and> pe_amount e = f_amount f"
proof -
  from assms(2) obtain km where km: "km \<in> set (members (gm_data g))"
    and e: "paid_entry_of g mo km = Some e"
    by (auto simp: map_filter_def)
  obtain k m where [simp]: "km = (k, m)" by (cases km)
  from assms(1) km have "m_id m = k"
    by (auto simp: member_ids_ok_def list_all_iff)
  then show ?thesis
    using e km by (auto simp: paid_entry_of_def)
qed

lemma gym_two_reached:
  "run [AddMember ''Bob'' ''555-0101'' None ''Gym'' (Some ''2024-01-11'') False None
          ''2024-01-12''] gym_alice_paid = gym_two"
  by (simp add: run_def gym_two_def doc_two_def bob_def example_defs add_member_def Let_def
        save_data_def str_int_def str_nat.simps digit_char_def)

lemma gym_two_status:
  "get_payment_status (Some ''2024-01'') ''2024-02'' gym_two =
     ([\<lparr>pe_member = alice, pe_last_paid = ''2024-01-15 10:00:00'', pe_amount = Fin 50\<rparr>], [bob])"
  by (simp add: get_payment_status_def gym_two_def doc_two_def example_defs
        is_fee_paid_def fee_info_def has_key_def)

text \<open>
  Claim C8. In a document whose member records carry their keys as \<^verbatim>\<open>id\<close>,
  for every month (the current month when none is given) the identifiers in
  the paid list and those in the unpaid list of \<^verbatim>\<open>get_payment_status\<close> are
  disjoint and together are exactly the keys of \<^verbatim>\<open>members\<close>; the two lists
  together hold every member record once; a member is in the paid list iff
  \<^verbatim>\<open>is_fee_paid\<close> holds for it and the month; and every paid entry is a member
  record with the \<^verbatim>\<open>paid_date\<close> (as \<^verbatim>\<open>last_paid\<close>) and the \<^verbatim>\<open>amount\<close> of that
  member's fee record for the month.
\<close>

theorem payment_status_partitions:
  assumes "member_ids_ok (gm_data g)"
    and "get_payment_status month this_month g = (paid, unpaid)"
    and "mo = (case month of None \<Rightarrow> this_month | Some m \<Rightarrow> m)"
  shows "set (map (m_id \<circ> pe_member) paid) \<inter> set (map m_id unpaid) = {} \<and>
         set (map (m_id \<circ> pe_member) paid) \<union> set (map m_id unpaid)
           = set (map fst (members (gm_data g))) \<and>
         mset (map pe_member paid @ unpaid) = mset (map snd (members (gm_data g))) \<and>
         (\<forall>k \<in> set (map fst (members (gm_data g))).
            k \<in> set (map (m_id \<circ> pe_member) paid) \<longleftrightarrow> is_fee_paid k mo g) \<and>
         (\<forall>e \<in> set paid. \<exists>f. fee_info (m_id (pe_member e)) mo g = Some f \<and>
             (m_id (pe_member e), pe_member e) \<in> set (members (gm_data g)) \<and>
             pe_last_paid e = f_paid_date f \<and> pe_amount e = f_amount f)"
proof -
  have p: "paid = List.map_filter (paid_entry_of g mo) (members (gm_data g))"
    and u: "unpaid = map snd (filter (\<lambda>km. \<not> is_fee_paid (fst km) mo g) (members (gm_data g)))"
    using assms(2,3) by (simp_all add: get_payment_status_eq)
  have pi: "map (m_id \<circ> pe_member) paid
         = map fst (filter (\<lambda>km. is_fee_paid (fst km) mo g) (members (gm_data g)))"
    unfolding p by (rule paid_ids[OF assms(1)])
  have ui: "map m_id unpaid
         = map fst (filter (\<lambda>km. \<not> is_fee_paid (fst km) mo g) (members (gm_data g)))"
    unfolding u by (rule unpaid_ids[OF assms(1)])
  have 1: "set (map (m_id \<circ> pe_member) paid) \<inter> set (map m_id unpaid) = {}"
    unfolding pi ui by auto
  have 2: "set (map (m_id \<circ> pe_member) paid) \<union> set (map m_id unpaid)
           = set (map fst (members (gm_data g)))"
    unfolding pi ui by auto
  have 4: "\<forall>k \<in> set (map fst (members (gm_data g))).
            k \<in> set (map (m_id \<circ> pe_member) paid) \<longleftrightarrow> is_fee_paid k mo g"
    unfolding pi by auto
  have 5: "\<forall>e \<in> set paid. \<exists>f. fee_info (m_id (pe_member e)) mo g = Some f \<and>
             (m_id (pe_member e), pe_member e) \<in> set (members (gm_data g)) \<and>
             pe_last_paid e = f_paid_date f \<and> pe_amount e = f_amount f"
    unfolding p using paid_entries_carry[OF assms(1)] by blast
  have pm: "map pe_member (List.map_filter (paid_entry_of g mo) ms)
            = map snd (filter (\<lambda>km. is_fee_paid (fst km) mo g) ms)" for ms
    by (induction ms)
       (auto simp: map_filter_simps paid_entry_of_def is_fee_paid_iff split: option.splits)
  have 3: "mset (map pe_member paid @ unpaid) = mset (map snd (members (gm_data g)))"
  proof -
    have "mset (map snd (filter P ms) @ map snd (filter (\<lambda>x. \<not> P x) ms)) = mset (map snd ms)"
      for P and ms :: "(string \<times> member) list"
      by (induction ms) auto
    then show ?thesis
      unfolding p u pm .
  qed
  show ?thesis using 1 2 3 4 5 by blast
qed

theorem payment_status_partitions_witness:
  "member_ids_ok (gm_data gym_two) \<and>
   get_payment_status (Some ''2024-01'') ''2024-02'' gym_two =
     ([\<lparr>pe_member = alice, pe_last_paid = ''2024-01-15 10:00:00'', pe_amount = Fin 50\<rparr>], [bob]) \<and>
   set (map (m_id \<circ> pe_member)
          [\<lparr>pe_member = alice, pe_last_paid = ''2024-01-15 10:00:00'', pe_amount = Fin 50\<rparr>]) \<inter>
     set (map m_id [bob]) = {} \<and>
   set (map (m_id \<circ> pe_member)
          [\<lparr>pe_member = alice, pe_last_paid = ''2024-01-15 10:00:00'', pe_amount = Fin 50\<rparr>]) \<union>
     set (map m_id [bob]) = set (map fst (members (gm_data gym_two))) \<and>
   is_fee_paid ''1'' ''2024-01'' gym_two \<and> \<not> is_fee_paid ''2'' ''2024-01'' gym_two"
proof -
  have i: "member_ids_ok (gm_data gym_two)"
    by (simp add: member_ids_ok_def gym_two_def doc_two_def alice_def bob_def)
  have m: "''2024-01'' = (case Some ''2024-01'' of None \<Rightarrow> ''2024-02'' | Some m \<Rightarrow> m)"
    by simp
  have k: "''1'' \<in> set (map fst (members (gm_data gym_two)))"
    "''2'' \<in> set (map fst (members (gm_data gym_two)))"
    by (simp_all add: gym_two_def doc_two_def)
  have a: "''1'' \<in> set (map (m_id \<circ> pe_member)
      [\<lparr>pe_member = alice, pe_last_paid = ''2024-01-15 10:00:00'', pe_amount = Fin 50\<rparr>])"
    "''2'' \<notin> set (map (m_id \<circ> pe_member)
      [\<lparr>pe_member = alice, pe_last_paid = ''2024-01-15 10:00:00'', pe_amount = Fin 50\<rparr>])"
    by (simp_all add: alice_def)
  note t = payment_status_partitions [OF i gym_two_status m]
  show ?thesis
    using i gym_two_status t k a by blast
qed

subsection \<open>Evaluating the floating-point operations\<close>

text \<open>Floors and ceilings of quotients of numerals.\<close>

lemma floor_numeral_div: "\<lfloor>(numeral a :: rat) / numeral b\<rfloor> = numeral a div numeral b"
  using floor_divide_of_int_eq[of "numeral a" "numeral b", where ?'a = rat] by simp

lemma floor_one_div: "\<lfloor>(1 :: rat) / numeral b\<rfloor> = 1 div numeral b"
  using floor_divide_of_int_eq[of 1 "numeral b", where ?'a = rat] by simp

lemma floor_neg_numeral_div:
  "\<lfloor>- ((numeral a :: rat) / numeral b)\<rfloor> = (- numeral a) div numeral b"
  using floor_divide_of_int_eq[of "- numeral a" "numeral b", where ?'a = rat] by simp

lemma floor_neg_one_div: "\<lfloor>- ((1 :: rat) / numeral b)\<rfloor> = (- 1) div numeral b"
  using floor_divide_of_int_eq[of "- 1" "numeral b", where ?'a = rat] by simp

lemma ceiling_numeral_div:
  "\<lceil>(numeral a :: rat) / numeral b\<rceil> = - ((- numeral a) div numeral b)"
  by (simp add: ceiling_def floor_neg_numeral_div)

lemma ceiling_one_div: "\<lceil>(1 :: rat) / numeral b\<rceil> = - ((- 1) div numeral b)"
  by (simp add: ceiling_def floor_neg_one_div)

lemmas floor_rat_simps =
  floor_numeral_div floor_one_div floor_neg_numeral_div floor_neg_one_div
  ceiling_numeral_div ceiling_one_div

text \<open>
  \<open>round_double\<close> in steps: the exponent, then the significand, then the
  value.
\<close>

lemma round_double_eval:
  "ilog2 \<bar>x\<bar> = e0 \<Longrightarrow> e = max e0 (- 1022) \<Longrightarrow>
   round_half_even (\<bar>x\<bar> / pow2 (e - 52)) = n \<Longrightarrow>
   round_double x =
     (if 1023 < e \<or> (e = 1023 \<and> 2 ^ 53 \<le> n) then (if x < 0 then NInf else PInf)
      else if n = 0 then (if x < 0 then NegZero else Fin 0)
      else Fin ((if x < 0 then - 1 else 1) * of_int n * pow2 (e - 52)))"
  by (simp add: round_double_def Let_def)












lemma rd_109_800: "round_double (109 / 800) = Fin (4908923593833841 / 36028797018963968)"
proof -
  have i: "ilog2 \<bar>109 / 800\<bar> = - 3"
    by (simp add: ilog2_def bit_length.simps floor_rat_simps)
  have n: "round_half_even (\<bar>109 / 800\<bar> / pow2 ((- 3) - 52)) = 4908923593833841"
    by (simp add: round_half_even_def Let_def pow2_def floor_rat_simps)
  show ?thesis
    using round_double_eval [of "109 / 800" "- 3" "- 3" "4908923593833841", OF i _ n]
    by (simp add: pow2_def)
qed

lemma rd_13625: "round_double (122723089845846025 / 9007199254740992) = Fin (7670193115365377 / 562949953421312)"
proof -
  have i: "ilog2 \<bar>122723089845846025 / 9007199254740992\<bar> = 3"
    by (simp add: ilog2_def bit_length.simps floor_rat_simps)
  have n: "round_half_even (\<bar>122723089845846025 / 9007199254740992\<bar> / pow2 (3 - 52)) = 7670193115365377"
    by (simp add: round_half_even_def Let_def pow2_def floor_rat_simps)
  show ?thesis
    using round_double_eval [of "122723089845846025 / 9007199254740992" "3" "3" "7670193115365377", OF i _ n]
    by (simp add: pow2_def)
qed

lemma rd_1363: "round_double (1363 / 100) = Fin (7673007865132483 / 562949953421312)"
proof -
  have i: "ilog2 \<bar>1363 / 100\<bar> = 3"
    by (simp add: ilog2_def bit_length.simps floor_rat_simps)
  have n: "round_half_even (\<bar>1363 / 100\<bar> / pow2 (3 - 52)) = 7673007865132483"
    by (simp add: round_half_even_def Let_def pow2_def floor_rat_simps)
  show ?thesis
    using round_double_eval [of "1363 / 100" "3" "3" "7673007865132483", OF i _ n]
    by (simp add: pow2_def)
qed

text \<open>
  A net profit of 109 on a revenue of 800: the quotient is the double nearest
  to 0.13625, its product with 100 is the double just above 13.625, and the
  margin is the double 13.63 (in exact arithmetic the tie 13.625 would go to
  13.62).
\<close>

lemma margin_109_800:
  "fdiv (Fin 109) (Fin 800) = Fin (4908923593833841 / 36028797018963968)"
  "fmul (Fin (4908923593833841 / 36028797018963968)) (Fin 100) = Fin (7670193115365377 / 562949953421312)"
  "round2 (Fin (7670193115365377 / 562949953421312)) = Fin (7673007865132483 / 562949953421312)"
  "round2 (fmul (fdiv (Fin 109) (Fin 800)) (Fin 100)) = Fin (7673007865132483 / 562949953421312)"
proof -
  show a: "fdiv (Fin 109) (Fin 800) = Fin (4908923593833841 / 36028797018963968)"
    by (simp add: fdiv_def is_inf_def Let_def rd_109_800)
  show b: "fmul (Fin (4908923593833841 / 36028797018963968)) (Fin 100) = Fin (7670193115365377 / 562949953421312)"
    by (simp add: fmul_def is_inf_def Let_def rd_13625)
  have h: "round_half_even (191754827884134425 / 140737488355328) = 1363"
    by (simp add: round_half_even_def Let_def floor_rat_simps)
  show c: "round2 (Fin (7670193115365377 / 562949953421312)) = Fin (7673007865132483 / 562949953421312)"
    by (simp add: round2_def Let_def h rd_1363)
  show "round2 (fmul (fdiv (Fin 109) (Fin 800)) (Fin 100)) = Fin (7673007865132483 / 562949953421312)"
    by (simp only: a b c)
qed

subsection \<open>Profit and loss\<close>
















lemma gym_thirds_reached:
  "run [PayFee ''1'' ''2024-01'' (Fin 30) None None ''2024-01-15 10:00:00'',
        AddExpense ''Rent'' (Fin 10) (Some ''2024-01-05'') []] gym_alice = gym_thirds"
  by (simp add: run_def gym_thirds_def doc_thirds_def thirds_fee_def rent_def example_defs
        pay_fee_def add_expense_def has_key_def Let_def save_data_def zero_pad_examples)

lemma gym_undated_reached:
  "run [AddExpense ''Rent'' (Fin 10) None []] (init_manager None) = gym_undated"
  by (simp add: run_def gym_undated_def doc_undated_def undated_def add_expense_def Let_def
        init_manager_def load_data_def create_empty_data_def save_data_def zero_pad_examples)









subsection \<open>The subscription gate\<close>

lemmas date_defs =
  strptime_ymd_def month_field_def day_field_def digits_val_def digit_val_def
  days_in_month_def is_leap_def plus_days_def next_day_def strftime_ymd_def strftime_full_def
  zero_pad_def str_nat.simps digit_char_def

lemma replicate_numeral: "replicate (numeral k) x = x # replicate (pred_numeral k) x"
  by (simp add: numeral_eq_Suc)

lemma funpow_numeral: "(f ^^ numeral k) x = (f ^^ pred_numeral k) (f x)"
  by (simp add: numeral_eq_Suc funpow_swap1)

lemma strptime_may10:
  "strptime_ymd ''2024-05-10'' = Some (at_time 2024 5 10 0)"
  by (simp add: date_defs at_time_def)

lemma is_subscription_active_cases:
  assumes "map_of users username = Some u"
  shows "u_plan u = Some ''free_lifetime'' \<Longrightarrow>
           is_subscription_active username now users = Inr True"
    and "u_plan u \<noteq> Some ''free_lifetime'' \<Longrightarrow> \<not> truthy (u_subscription_expiry u) \<Longrightarrow>
           is_subscription_active username now users = Inr False"
    and "u_plan u \<noteq> Some ''free_lifetime'' \<Longrightarrow> u_subscription_expiry u = Some e \<Longrightarrow>
         e \<noteq> [] \<Longrightarrow> strptime_ymd e = Some d \<Longrightarrow>
           is_subscription_active username now users = Inr (datetime_le now d)"
  using assms
  by (auto simp: is_subscription_active_def split: option.splits)

text \<open>
  Against midnight at the start of a day, \<^verbatim>\<open>now <= expiry_date\<close> holds only
  before that day begins, or at its very first instant.
\<close>

lemma datetime_le_midnight:
  "datetime_le now (at_time y m d 0) \<longleftrightarrow>
     lex_le [dt_year now, dt_month now, dt_day now] [y, m, d] \<and>
     ([dt_year now, dt_month now, dt_day now] = [y, m, d] \<longrightarrow>
        dt_hour now = 0 \<and> dt_minute now = 0 \<and> dt_second now = 0 \<and> dt_microsecond now = 0)"
  by (auto simp: datetime_le_def at_time_def)

lemma bob_approved_reached:
  "approve_manual_payment ''bob'' (at_time 2024 4 10 12) [(''bob'', bob_account)] =
     Inr (True, [(''bob'', bob_approved)])"
proof -
  have p: "plus_days 30 (at_time 2024 4 10 12) = Some (at_time 2024 5 10 12)"
    by (simp add: plus_days_def next_day_def days_in_month_def is_leap_def at_time_def
          funpow_numeral)
  have f: "strftime_ymd (at_time 2024 5 10 12) = ''2024-05-10''"
    "strftime_full (at_time 2024 4 10 12) = ''2024-04-10 12:00:00''"
    by (simp_all add: strftime_full_def strftime_ymd_def zero_pad_def str_nat.simps
          digit_char_def at_time_def replicate_numeral)
  show ?thesis
    by (simp add: approve_manual_payment_def record_payment_def p f Let_def bob_approved_def
          bob_account_def)
qed

text \<open>
  Claim C1 at a failing input. Bob is on the standard plan and his
  \<^verbatim>\<open>subscription_expiry\<close> is 10 May 2024, the date written by the approval of
  10 April at noon (``give 30 days''). On 10 May at 11:00 the expiry is present
  and equal to the current date, not in the past, and less than 30 days have
  gone by; \<^verbatim>\<open>is_subscription_active\<close> returns false.
\<close>

theorem inactive_on_expiry_day:
  "map_of [(''bob'', bob_approved)] ''bob'' = Some bob_approved \<and>
   u_plan bob_approved = Some ''standard'' \<and>
   u_subscription_expiry bob_approved = Some ''2024-05-10'' \<and>
   strftime_ymd (at_time 2024 5 10 11) = ''2024-05-10'' \<and>
   is_subscription_active ''bob'' (at_time 2024 5 10 11) [(''bob'', bob_approved)] = Inr False"
proof -
  have f: "strftime_ymd (at_time 2024 5 10 11) = ''2024-05-10''"
    by (simp add: strftime_ymd_def zero_pad_def str_nat.simps digit_char_def at_time_def
          replicate_numeral)
  have a: "is_subscription_active ''bob'' (at_time 2024 5 10 11) [(''bob'', bob_approved)] =
             Inr False"
    by (simp add: is_subscription_active_def bob_approved_def bob_account_def strptime_may10
          datetime_le_midnight)
       (simp add: at_time_def)
  show ?thesis
    using f a by (simp add: bob_approved_def bob_account_def)
qed

subsection \<open>Every call keeps a document well formed\<close>

text \<open>
  The hypotheses \<open>wf_data\<close> and \<open>member_ids_ok\<close> used above hold for a fresh
  manager and are kept by every call, for the document in memory and for the
  one in the file.
\<close>

lemma list_all_lookup: "list_all P d \<Longrightarrow> map_of d k = Some v \<Longrightarrow> P (k, v)"
  by (auto simp: list_all_iff dest: map_of_SomeD)

lemma wf_manager_save: "wf_data d \<Longrightarrow> wf_manager (save_data (g\<lparr>gm_data := d\<rparr>))"
  by (simp add: wf_manager_def save_data_def)

lemma wf_managerD: "wf_manager g \<Longrightarrow> wf_data (gm_data g)"
  by (simp add: wf_manager_def)

lemma or_empty_keys:
  "opt_keys_ok od \<Longrightarrow> distinct_keys (case od of None \<Rightarrow> [] | Some d \<Rightarrow> d)"
  by (simp add: opt_keys_ok_def distinct_keys_def split: option.splits)

lemma opt_keys_ok_Some: "opt_keys_ok (Some d) = distinct_keys d"
  by (simp add: opt_keys_ok_def)

lemma wf_inner_keys:
  "wf_data d \<Longrightarrow> map_of (fees d) m = Some inner \<Longrightarrow> distinct_keys inner"
  by (simp add: distinct_keys_def wf_inner)

lemma wf_add_member:
  assumes "wf_manager g" "add_member n p ph mt jd tr em today g = Inr (i, g')"
  shows "wf_manager g'"
proof -
  have w: "wf_data (gm_data g)"
    using assms(1) by (rule wf_managerD)
  have "wf_data ((gm_data g)\<lparr>members := AList.update k m (members (gm_data g)),
                              next_member_id := j\<rparr>)" for k m j
    using w by (simp add: wf_data_def distinct_keys_update)
  then show ?thesis
    using assms(2) by (auto simp: add_member_def Let_def wf_manager_save split: sum.splits)
qed

lemma wf_update_member:
  assumes "wf_manager g"
  shows "wf_manager (snd (update_member i n p mt jd em g))"
proof -
  have w: "wf_data (gm_data g)"
    using assms by (rule wf_managerD)
  have "wf_data ((gm_data g)\<lparr>members := AList.update k m (members (gm_data g))\<rparr>)" for k m
    using w by (simp add: wf_data_def distinct_keys_update)
  then show ?thesis
    using assms by (simp add: update_member_def Let_def wf_manager_save split: option.splits)
qed

lemma wf_delete_member:
  assumes "wf_manager g"
  shows "wf_manager (snd (delete_member i g))"
proof -
  have w: "wf_data (gm_data g)"
    using assms by (rule wf_managerD)
  have "wf_data ((gm_data g)\<lparr>members := AList.delete i (members (gm_data g)),
                              fees := AList.delete i (fees (gm_data g))\<rparr>)"
    using w by (simp add: wf_data_def distinct_keys_delete list_all_delete)
  then show ?thesis
    using assms
    by (cases "has_key (members (gm_data g)) i")
       (simp_all add: delete_member_known delete_member_unknown wf_manager_save)
qed

lemma wf_add_expense:
  assumes "wf_manager g"
  shows "wf_manager (snd (add_expense c a dt ds g))"
proof -
  have w: "wf_data (gm_data g)"
    using assms by (rule wf_managerD)
  have "wf_data ((gm_data g)\<lparr>expenses := Some (AList.update k e
          (case expenses (gm_data g) of None \<Rightarrow> [] | Some x \<Rightarrow> x))\<rparr>)" for k e
    using w by (simp add: wf_data_def opt_keys_ok_Some distinct_keys_update or_empty_keys)
  then show ?thesis
    by (simp add: add_expense_def Let_def wf_manager_save)
qed

lemma wf_delete_expense:
  assumes "wf_manager g"
  shows "wf_manager (snd (delete_expense i g))"
proof -
  have w: "wf_data (gm_data g)"
    using assms by (rule wf_managerD)
  have "wf_data ((gm_data g)\<lparr>expenses := Some (AList.delete i x)\<rparr>)"
    if "expenses (gm_data g) = Some x" for x
    using w that by (simp add: wf_data_def opt_keys_ok_Some distinct_keys_delete)
  then show ?thesis
    using assms by (simp add: delete_expense_def Let_def wf_manager_save split: option.splits)
qed

lemma wf_pay_fee:
  assumes "wf_manager g"
  shows "wf_manager (snd (pay_fee i m a pd n now g))"
proof (cases "has_key (members (gm_data g)) i")
  case True
  have "wf_data (gm_data (snd (pay_fee i m a pd n now g)))"
    using assms by (intro pay_fee_wf wf_managerD)
  then show ?thesis
    by (simp add: pay_fee_known[OF True] wf_manager_def save_data_def)
next
  case False
  then show ?thesis
    using assms by (simp add: pay_fee_def)
qed

lemma wf_fees_update:
  assumes "wf_data d" "distinct_keys inner"
  shows "wf_data (d\<lparr>fees := AList.update m inner (fees d)\<rparr>)"
  using assms by (simp add: wf_data_def distinct_keys_update list_all_update)

lemma wf_delete_fee:
  assumes "wf_manager g"
  shows "wf_manager (snd (delete_fee i m g))"
proof -
  have w: "wf_data (gm_data g)"
    using assms by (rule wf_managerD)
  have "wf_data ((gm_data g)\<lparr>fees := AList.update i (AList.delete m inner) (fees (gm_data g))\<rparr>)"
    if "map_of (fees (gm_data g)) i = Some inner" for inner
    using w that by (intro wf_fees_update distinct_keys_delete wf_inner_keys)
  then show ?thesis
    using assms by (simp add: delete_fee_def Let_def wf_manager_save split: option.splits)
qed

lemma wf_update_fee:
  assumes "wf_manager g"
  shows "wf_manager (snd (update_fee i m a dt n g))"
proof -
  have w: "wf_data (gm_data g)"
    using assms by (rule wf_managerD)
  have "wf_data ((gm_data g)\<lparr>fees := AList.update i (AList.update m r inner) (fees (gm_data g))\<rparr>)"
    if "map_of (fees (gm_data g)) i = Some inner" for inner r
    using w that by (intro wf_fees_update distinct_keys_update wf_inner_keys)
  then show ?thesis
    using assms by (simp add: update_fee_def Let_def wf_manager_save split: option.splits)
qed

lemma wf_log_attendance:
  assumes "wf_manager g"
  shows "wf_manager (snd (log_attendance i ts g))"
proof -
  have w: "wf_data (gm_data g)"
    using assms by (rule wf_managerD)
  have "wf_data ((gm_data g)\<lparr>attendance := Some (AList.update k v
          (if c then AList.update k' v' (case attendance (gm_data g) of None \<Rightarrow> [] | Some x \<Rightarrow> x)
           else (case attendance (gm_data g) of None \<Rightarrow> [] | Some x \<Rightarrow> x)))\<rparr>)" for k v k' v' c
    using w by (simp add: wf_data_def opt_keys_ok_Some distinct_keys_update or_empty_keys)
  then show ?thesis
    using assms by (simp add: log_attendance_def Let_def wf_manager_save)
qed

lemma wf_add_class:
  assumes "wf_manager g"
  shows "wf_manager (snd (add_class n dy tm ins cap g))"
proof -
  have w: "wf_data (gm_data g)"
    using assms by (rule wf_managerD)
  have "wf_data ((gm_data g)\<lparr>classes := Some (AList.update k e
          (case classes (gm_data g) of None \<Rightarrow> [] | Some x \<Rightarrow> x))\<rparr>)" for k e
    using w by (simp add: wf_data_def opt_keys_ok_Some distinct_keys_update or_empty_keys)
  then show ?thesis
    by (simp add: add_class_def Let_def wf_manager_save)
qed

lemma wf_book_class:
  assumes "wf_manager g"
  shows "wf_manager (snd (book_class i c g))"
proof -
  have w: "wf_data (gm_data g)"
    using assms by (rule wf_managerD)
  have "wf_data ((gm_data g)\<lparr>classes := Some (AList.update k e x)\<rparr>)"
    if "classes (gm_data g) = Some x" for k e x
    using w that by (simp add: wf_data_def opt_keys_ok_Some distinct_keys_update)
  then show ?thesis
    using assms by (simp add: book_class_def Let_def wf_manager_save split: option.splits)
qed

lemma wf_details:
  "wf_data d \<Longrightarrow> wf_data (d\<lparr>details := x\<rparr>)"
  by (simp add: wf_data_def)

lemma wf_get_gym_details:
  assumes "wf_manager g"
  shows "wf_manager (snd (get_gym_details g))"
  using assms
  by (auto simp: get_gym_details_def Let_def wf_manager_def save_data_def wf_details
      split: option.splits)

lemma wf_update_gym_details:
  assumes "wf_manager g"
  shows "wf_manager (snd (update_gym_details n l c g))"
  using assms
  by (simp add: update_gym_details_def Let_def wf_manager_save wf_details wf_managerD)

lemma wf_empty: "wf_data create_empty_data"
  by (simp add: wf_data_def create_empty_data_def distinct_keys_def opt_keys_ok_def)

lemma wf_reset: "wf_manager (snd (reset_data g))"
  by (simp add: reset_data_def wf_manager_save wf_empty)

lemma wf_reload: "wf_manager g \<Longrightarrow> wf_manager (init_manager (gm_file g))"
  by (auto simp: init_manager_def load_data_def wf_manager_def wf_empty split: option.splits)

lemma wf_apply_call: "wf_manager g \<Longrightarrow> wf_manager (apply_call c g)"
proof (cases c)
  case (AddMember n p ph mt jd tr em today)
  assume "wf_manager g"
  then show ?thesis
    using AddMember wf_add_member[of g n p ph mt jd tr em today]
    by (auto split: sum.splits)
qed (simp_all add: wf_update_member wf_delete_member wf_add_expense wf_delete_expense
      wf_pay_fee wf_delete_fee wf_update_fee wf_log_attendance wf_add_class wf_book_class
      wf_get_gym_details wf_update_gym_details wf_reset wf_reload)

lemma wf_manager_run: "wf_manager g \<Longrightarrow> wf_manager (run cs g)"
  unfolding run_def by (induction cs arbitrary: g) (simp_all add: wf_apply_call)

lemma wf_manager_init: "wf_manager (init_manager None)"
  by (simp add: init_manager_def load_data_def wf_manager_def wf_empty)

lemma ids_inv_save: "member_ids_ok d \<Longrightarrow> ids_inv (save_data (g\<lparr>gm_data := d\<rparr>))"
  by (simp add: ids_inv_def save_data_def)

lemma ids_inv_same_members:
  "ids_inv g \<Longrightarrow> members d' = members (gm_data g) \<Longrightarrow>
   ids_inv (save_data (g\<lparr>gm_data := d'\<rparr>))"
  by (simp add: ids_inv_def save_data_def member_ids_ok_def)

lemma ids_add_member:
  assumes "ids_inv g" "add_member n p ph mt jd tr em today g = Inr (i, g')"
  shows "ids_inv g'"
proof -
  have "member_ids_ok ((gm_data g)\<lparr>members := AList.update k m (members (gm_data g)),
                                    next_member_id := j\<rparr>)" if "m_id m = k" for k m j
    using assms(1) that by (simp add: ids_inv_def member_ids_ok_def list_all_update)
  then show ?thesis
    using assms(2) by (auto simp: add_member_def Let_def ids_inv_save split: sum.splits)
qed

lemma ids_update_member:
  assumes "ids_inv g"
  shows "ids_inv (snd (update_member i n p mt jd em g))"
proof -
  have "member_ids_ok ((gm_data g)\<lparr>members := AList.update i m' (members (gm_data g))\<rparr>)"
    if "map_of (members (gm_data g)) i = Some m" "m_id m' = m_id m" for m m'
  proof -
    have "m_id m = i"
      using assms that(1) list_all_lookup[of "\<lambda>(k, m). m_id m = k" "members (gm_data g)" i m]
      by (simp add: ids_inv_def member_ids_ok_def)
    then show ?thesis
      using assms that(2) by (simp add: ids_inv_def member_ids_ok_def list_all_update)
  qed
  then show ?thesis
    using assms by (simp add: update_member_def Let_def ids_inv_save split: option.splits)
qed

lemma ids_delete_member:
  assumes "ids_inv g"
  shows "ids_inv (snd (delete_member i g))"
proof -
  have "member_ids_ok ((gm_data g)\<lparr>members := AList.delete i (members (gm_data g)),
                              fees := AList.delete i (fees (gm_data g))\<rparr>)"
    using assms by (simp add: ids_inv_def member_ids_ok_def list_all_delete)
  then show ?thesis
    using assms
    by (cases "has_key (members (gm_data g)) i")
       (simp_all add: delete_member_known delete_member_unknown ids_inv_save)
qed

lemma ids_add_expense: "ids_inv g \<Longrightarrow> ids_inv (snd (add_expense c a dt ds g))"
  by (auto simp: add_expense_def Let_def intro!: ids_inv_same_members)

lemma ids_delete_expense: "ids_inv g \<Longrightarrow> ids_inv (snd (delete_expense i g))"
  by (auto simp: delete_expense_def Let_def split: option.splits intro!: ids_inv_same_members)

lemma ids_pay_fee: "ids_inv g \<Longrightarrow> ids_inv (snd (pay_fee i m a pd n now g))"
  by (auto simp: pay_fee_def Let_def intro!: ids_inv_same_members)

lemma ids_delete_fee: "ids_inv g \<Longrightarrow> ids_inv (snd (delete_fee i m g))"
  by (auto simp: delete_fee_def Let_def split: option.splits intro!: ids_inv_same_members)

lemma ids_update_fee: "ids_inv g \<Longrightarrow> ids_inv (snd (update_fee i m a dt n g))"
  by (auto simp: update_fee_def Let_def split: option.splits intro!: ids_inv_same_members)

lemma ids_log_attendance: "ids_inv g \<Longrightarrow> ids_inv (snd (log_attendance i ts g))"
  by (auto simp: log_attendance_def Let_def intro!: ids_inv_same_members)

lemma ids_add_class: "ids_inv g \<Longrightarrow> ids_inv (snd (add_class n dy tm ins cap g))"
  by (auto simp: add_class_def Let_def intro!: ids_inv_same_members)

lemma ids_book_class: "ids_inv g \<Longrightarrow> ids_inv (snd (book_class i c g))"
  by (auto simp: book_class_def Let_def split: option.splits intro!: ids_inv_same_members)

lemma ids_get_gym_details: "ids_inv g \<Longrightarrow> ids_inv (snd (get_gym_details g))"
  by (auto simp: get_gym_details_def Let_def ids_inv_def member_ids_ok_def save_data_def
      split: option.splits)

lemma ids_update_gym_details: "ids_inv g \<Longrightarrow> ids_inv (snd (update_gym_details n l c g))"
  by (auto simp: update_gym_details_def Let_def intro!: ids_inv_same_members)

lemma ids_reset: "ids_inv (snd (reset_data g))"
  by (simp add: reset_data_def ids_inv_def member_ids_ok_def save_data_def create_empty_data_def)

lemma ids_reload: "ids_inv g \<Longrightarrow> ids_inv (init_manager (gm_file g))"
  by (auto simp: init_manager_def load_data_def ids_inv_def member_ids_ok_def
      create_empty_data_def split: option.splits)

lemma ids_apply_call: "ids_inv g \<Longrightarrow> ids_inv (apply_call c g)"
proof (cases c)
  case (AddMember n p ph mt jd tr em today)
  assume "ids_inv g"
  then show ?thesis
    using AddMember ids_add_member[of g n p ph mt jd tr em today]
    by (auto split: sum.splits)
qed (simp_all add: ids_update_member ids_delete_member ids_add_expense ids_delete_expense
      ids_pay_fee ids_delete_fee ids_update_fee ids_log_attendance ids_add_class ids_book_class
      ids_get_gym_details ids_update_gym_details ids_reset ids_reload)

lemma ids_inv_run: "ids_inv g \<Longrightarrow> ids_inv (run cs g)"
  unfolding run_def by (induction cs arbitrary: g) (simp_all add: ids_apply_call)

lemma ids_inv_init: "ids_inv (init_manager None)"
  by (simp add: init_manager_def load_data_def ids_inv_def member_ids_ok_def
        create_empty_data_def)

end
